theory Spec2Isabelle
  imports Complex_Main "HOL-Library.Multiset"
begin

section \<open>Values shared by the camera component and the XR manager\<close>

text \<open>
  JavaScript numbers are modelled as reals: the manager only stores, compares and forwards
  them. Objects with identity (cameras, sessions, callbacks) are references into explicit
  stores. An \<open>Error\<close> object is its message; \<open>TypeError\<close> is what the engine raises
  when a property of \<open>null\<close> or \<open>undefined\<close> is read.
\<close>

type_synonym num = real
type_synonym callback = nat
type_synonym camera_ref = nat
type_synonym session_ref = nat

datatype js_error = Error string | TypeError

section \<open>Camera component (src/framework/components/camera/component.js)\<close>

text \<open>
  The fields of \<open>CameraComponent\<close> and of its scene \<open>Camera\<close> (\<open>this._camera\<close>) that the
  modelled code reads or writes. \<open>xr\<close> is \<open>camera.camera.xr\<close>: \<open>True\<close> when it holds the
  manager, \<open>False\<close> when it is \<open>null\<close>. \<open>set_nearClip\<close> and \<open>set_farClip\<close> are the
  listeners registered with \<open>on\<close> under these event names; a listener is the
  \<open>onClipPlanesChange\<close> closure of one \<open>_onSessionStart\<close> call, named by its session.
\<close>

record camera_component =
  nearClip :: num
  farClip :: num
  xr :: bool
  set_nearClip :: "session_ref list"
  set_farClip :: "session_ref list"
  node_localPosition :: "num \<times> num \<times> num"
  node_localRotation :: "num \<times> num \<times> num \<times> num"
  layers :: "int list"
  renderSceneDepthMap :: int
  sceneDepthMapRequested :: bool

text \<open>Calls that leave the component: \<open>Debug\<close> output and the scene's depth layer.\<close>

datatype debug_effect =
    AssertFailed
  | WarnOnce string
  | IncrementCounter
  | DecrementCounter

text \<open>
  \<open>_enableDepthLayer(value)\<close>, lines 253-270. \<open>LAYERID_DEPTH\<close> comes from
  scene/constants.js and is a parameter; \<open>find\<close> returns the id itself, so the test
  \<open>if (hasDepthLayer)\<close> is the truthiness of that number. \<open>sceneLayer\<close> says whether
  \<open>getLayerById\<close> finds the layer (\<open>depthLayer?.\<close> skips the call otherwise).
\<close>

definition enableDepthLayer ::
  "int \<Rightarrow> bool \<Rightarrow> camera_component \<Rightarrow> bool \<Rightarrow> debug_effect list \<times> bool" where
  "enableDepthLayer LAYERID_DEPTH sceneLayer c v =
     (if LAYERID_DEPTH \<in> set (layers c) \<and> LAYERID_DEPTH \<noteq> 0 then
        ((if sceneLayer then [if v then IncrementCounter else DecrementCounter] else []), True)
      else if v then ([], False)
      else ([], True))"

text \<open>
  \<open>requestSceneDepthMap(enabled)\<close>, lines 307-314. \<open>Debug.assert\<close> reports a failed
  assertion and returns; it does not undo the addition before it.
\<close>

definition requestSceneDepthMap ::
  "int \<Rightarrow> bool \<Rightarrow> camera_component \<Rightarrow> bool \<Rightarrow> camera_component \<times> debug_effect list" where
  "requestSceneDepthMap LAYERID_DEPTH sceneLayer c enabled =
     (let c1 = c\<lparr>renderSceneDepthMap := renderSceneDepthMap c + (if enabled then 1 else -1)\<rparr>;
          a = (if renderSceneDepthMap c1 \<ge> 0 then [] else [AssertFailed]);
          (l, ok) = enableDepthLayer LAYERID_DEPTH sceneLayer c1 enabled
      in (c1, a @ l @
           (if \<not> ok then [WarnOnce ''CameraComponent.requestSceneDepthMap was called, but the camera does not have a Depth layer, ignoring.''] else [])))"

text \<open>The setter \<open>renderSceneDepthMap\<close>, lines 316-324, and the getter, lines 326-328.\<close>

definition set_renderSceneDepthMap ::
  "int \<Rightarrow> bool \<Rightarrow> camera_component \<Rightarrow> bool \<Rightarrow> camera_component \<times> debug_effect list" where
  "set_renderSceneDepthMap LAYERID_DEPTH sceneLayer c v =
     (if v \<and> \<not> sceneDepthMapRequested c then
        (let (c1, l) = requestSceneDepthMap LAYERID_DEPTH sceneLayer c True
         in (c1\<lparr>sceneDepthMapRequested := True\<rparr>, l))
      else if sceneDepthMapRequested c then
        (let (c1, l) = requestSceneDepthMap LAYERID_DEPTH sceneLayer c False
         in (c1\<lparr>sceneDepthMapRequested := False\<rparr>, l))
      else (c, []))"

definition get_renderSceneDepthMap :: "camera_component \<Rightarrow> bool" where
  "get_renderSceneDepthMap c = (renderSceneDepthMap c > 0)"

text \<open>
  A camera component as its constructor and field initialisers leave it (lines 147, 165-181);
  the clip planes and layers are those of the scene \<open>Camera\<close> it wraps and are parameters.
\<close>

definition new_camera :: "num \<Rightarrow> num \<Rightarrow> int list \<Rightarrow> camera_component" where
  "new_camera near far ls =
     \<lparr>nearClip = near, farClip = far, xr = False, set_nearClip = [], set_farClip = [],
      node_localPosition = (0, 0, 0), node_localRotation = (0, 0, 0, 1),
      layers = ls, renderSceneDepthMap = 0, sceneDepthMapRequested = False\<rparr>"

text \<open>A run of \<open>requestSceneDepthMap\<close> calls on one component; the effects are dropped.\<close>

fun requestSceneDepthMap_calls ::
  "int \<Rightarrow> bool \<Rightarrow> camera_component \<Rightarrow> bool list \<Rightarrow> camera_component" where
  "requestSceneDepthMap_calls L sl c [] = c"
| "requestSceneDepthMap_calls L sl c (e # es) =
     requestSceneDepthMap_calls L sl (fst (requestSceneDepthMap L sl c e)) es"

section \<open>XR manager (src/framework/xr/xr-manager.js)\<close>

subsection \<open>Constants, options and host data\<close>

text \<open>
  Modelled from the spec: the constants of \<open>./constants.js\<close>, which is not part of the
  sources. The session types are the three the spec names (inline, VR, AR, with
  \<open>immersive-vr\<close> in its end-to-end scenario); the two depth-sensing defaults are the
  ones the documentation comment of \<open>start\<close> gives (lines 346-353).
\<close>

definition XRTYPE_INLINE :: string where "XRTYPE_INLINE = ''inline''"
definition XRTYPE_VR :: string where "XRTYPE_VR = ''immersive-vr''"
definition XRTYPE_AR :: string where "XRTYPE_AR = ''immersive-ar''"
definition XRDEPTHSENSINGUSAGE_CPU :: string where "XRDEPTHSENSINGUSAGE_CPU = ''cpu-optimized''"
definition XRDEPTHSENSINGFORMAT_L8A8 :: string where "XRDEPTHSENSINGFORMAT_L8A8 = ''luminance-alpha''"

text \<open>
  The fourth argument of \<open>start\<close>: absent, a bare callback function, or an options object.
  A field that is absent is \<open>None\<close> (or \<open>False\<close> for the two flags).
\<close>

record depth_sensing_options =
  o_usagePreference :: "string option"
  o_dataFormatPreference :: "string option"

record start_options_object =
  o_callback :: "callback option"
  o_optionalFeatures :: "string list option"
  o_imageTracking :: bool
  o_planeDetection :: bool
  o_depthSensing :: "depth_sensing_options option"

datatype start_options =
    OptUndefined
  | OptFunction callback
  | OptObject start_options_object

text \<open>The options object handed to \<open>navigator.xr.requestSession\<close>.\<close>

record depth_sensing_init =
  usagePreference :: "string list"
  dataFormatPreference :: "string list"

record session_init =
  requiredFeatures :: "string list"
  optionalFeatures :: "string list"
  domOverlay :: "string option"
  depthSensing :: "depth_sensing_init option"
  trackedImages :: "nat option"

datatype base_layer = XRWebGLLayer session_ref bool bool bool

record render_state_init =
  rs_baseLayer :: "base_layer option"
  rs_depthNear :: "num option"
  rs_depthFar :: "num option"

text \<open>
  What the sub-modules report. Their classes are not part of the sources; the manager reads
  only these properties of them.
\<close>

record submodules =
  imageTracking_supported :: bool
  imageTracking_images :: nat
  domOverlay_supported :: bool
  domOverlay_root :: "string option"
  depthSensing_supported :: bool
  hitTest_supported :: bool
  lightEstimation_supported :: bool
  planeDetection_supported :: bool

text \<open>
  An \<open>XRSession\<close> as the manager sees it. \<open>failed\<close> is the local variable of the
  \<open>_onSessionStart\<close> call made for this session, shared by its \<open>onEnd\<close> closure and
  the rejection handler of the reference-space request. The two listener flags say whether
  \<open>onEnd\<close> and \<open>onVisibilityChange\<close> of that call are registered on the session.
\<close>

record xr_session_obj =
  visibilityState :: string
  end_listener :: bool
  visibilitychange_listener :: bool
  failed :: bool

subsection \<open>Views and frames\<close>

type_synonym mat = "num list"

text \<open>
  A view record (lines 693-704). \<open>vid\<close> is the identity of the JavaScript object: two
  records with equal contents are still two objects, and the per-frame loop overwrites the
  contents in place.
\<close>

record xr_view =
  vid :: nat
  viewport :: "num \<times> num \<times> num \<times> num"
  projMat :: mat
  viewMat :: mat
  viewOffMat :: mat
  viewInvMat :: mat
  viewInvOffMat :: mat
  projViewOffMat :: mat
  viewMat3 :: mat
  position :: "num list"
  rotation :: "num \<times> num \<times> num \<times> num"

text \<open>
  \<open>new Mat3()\<close> is the identity (unnamed/part_000, lines 10-21). Modelled from the spec:
  \<open>Mat4\<close>, \<open>Vec4\<close> and \<open>Quat\<close> are not part of the sources; a fresh entry has
  "all matrices/vectors at identity/zero".
\<close>

definition Mat3_new :: mat where
  "Mat3_new = [1, 0, 0, 0, 1, 0, 0, 0, 1]"

definition Mat4_new :: mat where
  "Mat4_new = [1, 0, 0, 0, 0, 1, 0, 0, 0, 0, 1, 0, 0, 0, 0, 1]"

definition new_view :: "nat \<Rightarrow> xr_view" where
  "new_view i =
     \<lparr>vid = i, viewport = (0, 0, 0, 0), projMat = Mat4_new, viewMat = Mat4_new,
      viewOffMat = Mat4_new, viewInvMat = Mat4_new, viewInvOffMat = Mat4_new,
      projViewOffMat = Mat4_new, viewMat3 = Mat3_new, position = [0, 0, 0],
      rotation = (0, 0, 0, 1)\<rparr>"

text \<open>
  What \<open>update\<close> reads from an \<open>XRFrame\<close>: the size of the base layer's framebuffer,
  the viewer pose (\<open>None\<close> when \<open>getViewerPose\<close> returns \<open>null\<close>) and, for each raw view,
  its matrices and the viewport the layer gives it (x, y, width, height).
\<close>

record raw_view =
  projectionMatrix :: mat
  transform_matrix :: mat
  transform_inverse_matrix :: mat
  layer_viewport :: "num \<times> num \<times> num \<times> num"

record viewer_pose =
  pose_position :: "num \<times> num \<times> num"
  pose_orientation :: "num \<times> num \<times> num \<times> num"
  pose_views :: "raw_view list"

record xr_frame =
  framebufferWidth :: nat
  framebufferHeight :: nat
  viewerPose :: "viewer_pose option"

subsection \<open>Manager state, effects and the world\<close>

text \<open>
  The fields of \<open>XrManager\<close> (lines 35-186). \<open>end_once\<close> holds the callbacks that
  \<open>end\<close> registered with \<open>once('end', callback)\<close>.
\<close>

record xr_manager =
  xr_supported :: bool
  xr_available :: "string \<rightharpoonup> bool"
  xr_type :: "string option"
  xr_spaceType :: "string option"
  xr_session :: "session_ref option"
  xr_baseLayer :: "base_layer option"
  xr_referenceSpace :: "nat option"
  xr_camera :: "camera_ref option"
  views :: "xr_view list"
  viewsPool :: "xr_view list"
  xr_localPosition :: "num \<times> num \<times> num"
  xr_localRotation :: "num \<times> num \<times> num \<times> num"
  xr_depthNear :: num
  xr_depthFar :: num
  xr_width :: nat
  xr_height :: nat
  end_once :: "callback list"

datatype notification =
    EvError js_error
  | EvStart
  | EvEnd
  | EvUpdate
  | EvAvailable string bool
  | EvAvailableType string bool
  | EvVisibilityChange string

text \<open>
  Everything the manager does to its surroundings, in the order it does it: callbacks it
  invokes, notifications it fires, requests it sends to the host, and an exception that
  leaves a handler uncaught.
\<close>

datatype effect =
    CallbackCall callback "js_error option"
  | Fire notification
  | IsSessionSupported string
  | PrepareImages
  | RequestSession string session_init
  | RequestReferenceSpace session_ref string
  | UpdateRenderState session_ref render_state_init
  | SessionEnd session_ref
  | AppTick
  | SetResolution nat nat
  | SubmoduleUpdate string
  | Uncaught js_error

text \<open>
  The manager, the objects it shares with the application and the host, the trace of its
  effects, and the number of view records allocated so far (the next \<open>vid\<close>).
\<close>

record world =
  mgr :: xr_manager
  subs :: submodules
  cameras :: "camera_ref \<Rightarrow> camera_component"
  sessions :: "session_ref \<Rightarrow> xr_session_obj"
  effects :: "effect list"
  nextView :: nat

definition emit :: "effect \<Rightarrow> world \<Rightarrow> world" where
  "emit e w = w\<lparr>effects := effects w @ [e]\<rparr>"

text \<open>\<open>if (callback) callback(err)\<close>.\<close>

definition call :: "callback option \<Rightarrow> js_error option \<Rightarrow> world \<Rightarrow> world" where
  "call cb err w = (case cb of None \<Rightarrow> w | Some f \<Rightarrow> emit (CallbackCall f err) w)"

text \<open>
  \<open>this.fire(name, ...)\<close>. Modelled from the spec: \<open>EventHandler\<close> is not part of the
  sources; a callback registered with \<open>once\<close> fires "exactly once when the end
  notification occurs". Listeners of the application are outside the model: the
  notification itself is recorded.
\<close>

definition fire :: "notification \<Rightarrow> world \<Rightarrow> world" where
  "fire n w =
     (if n = EvEnd then
        (let w1 = (emit (Fire n) w)\<lparr>mgr := (mgr w)\<lparr>end_once := []\<rparr>\<rparr>
         in w1\<lparr>effects := effects w1 @ map (\<lambda>f. CallbackCall f None) (end_once (mgr w))\<rparr>)
      else emit (Fire n) w)"

subsection \<open>Construction and the capability registry\<close>

text \<open>
  \<open>_available\<close> is a plain object (line 47): \<open>xr_available\<close> holds its own keys, and a
  key it lacks is looked up in \<open>Object.prototype\<close>. The members of \<open>Object.prototype\<close>
  are those of the language standard and its annex for browsers; each is a function or an
  object, so it is truthy and never equal to a boolean.
\<close>

definition Object_prototype_keys :: "string list" where
  "Object_prototype_keys =
     [''constructor'', ''hasOwnProperty'', ''isPrototypeOf'', ''propertyIsEnumerable'',
      ''toLocaleString'', ''toString'', ''valueOf'', ''__proto__'', ''__defineGetter__'',
      ''__defineSetter__'', ''__lookupGetter__'', ''__lookupSetter__'']"

datatype available_value = AvUndefined | AvBool bool | AvInherited

text \<open>The read \<open>this._available[type]\<close> and the truthiness of what it gives.\<close>

definition available_get :: "xr_manager \<Rightarrow> string \<Rightarrow> available_value" where
  "available_get m type =
     (case xr_available m type of
        Some b \<Rightarrow> AvBool b
      | None \<Rightarrow> if type \<in> set Object_prototype_keys then AvInherited else AvUndefined)"

fun available_truthy :: "available_value \<Rightarrow> bool" where
  "available_truthy AvUndefined = False"
| "available_truthy (AvBool b) = b"
| "available_truthy AvInherited = True"

text \<open>
  The write \<open>this._available[type] = available\<close>. Under the key \<open>__proto__\<close> the
  assignment reaches the inherited setter, which ignores a boolean: no own key is made.
\<close>

definition available_set :: "string \<Rightarrow> bool \<Rightarrow> xr_manager \<Rightarrow> xr_manager" where
  "available_set type av m =
     (if type = ''__proto__'' then m
      else m\<lparr>xr_available := (xr_available m)(type \<mapsto> av)\<rparr>)"

text \<open>
  \<open>_sessionSupportCheck(type)\<close>, lines 545-556: the request, and the two handlers of its
  promise. \<open>_deviceAvailabilityCheck\<close>, lines 535-539, walks the keys of \<open>_available\<close>,
  which are the three the constructor inserts, in insertion order.
\<close>

definition sessionSupportCheck :: "string \<Rightarrow> world \<Rightarrow> world" where
  "sessionSupportCheck type w = emit (IsSessionSupported type) w"

definition isSessionSupported_then :: "string \<Rightarrow> bool \<Rightarrow> world \<Rightarrow> world" where
  "isSessionSupported_then type av w =
     (if available_get (mgr w) type = AvBool av then w
      else
        (let w1 = w\<lparr>mgr := available_set type av (mgr w)\<rparr>
         in fire (EvAvailableType type av) (fire (EvAvailable type av) w1)))"

definition isSessionSupported_catch :: "js_error \<Rightarrow> world \<Rightarrow> world" where
  "isSessionSupported_catch ex w = fire (EvError ex) w"

definition deviceAvailabilityCheck :: "world \<Rightarrow> world" where
  "deviceAvailabilityCheck w =
     sessionSupportCheck XRTYPE_AR (sessionSupportCheck XRTYPE_VR (sessionSupportCheck XRTYPE_INLINE w))"

text \<open>
  The field initialisers (lines 41-186) and the constructor (lines 194-223).
  \<open>platform.browser && !!navigator.xr\<close> is the parameter \<open>supported\<close>; the sub-modules,
  the cameras and the sessions of the surrounding application are parameters too.
\<close>

definition XrManager_fields :: "bool \<Rightarrow> xr_manager" where
  "XrManager_fields supported =
     \<lparr>xr_supported = supported,
      xr_available = [XRTYPE_INLINE \<mapsto> False, XRTYPE_VR \<mapsto> False, XRTYPE_AR \<mapsto> False],
      xr_type = None, xr_spaceType = None, xr_session = None, xr_baseLayer = None,
      xr_referenceSpace = None, xr_camera = None, views = [], viewsPool = [],
      xr_localPosition = (0, 0, 0), xr_localRotation = (0, 0, 0, 1),
      xr_depthNear = 0.1, xr_depthFar = 1000, xr_width = 0, xr_height = 0, end_once = []\<rparr>"

definition XrManager_new ::
  "bool \<Rightarrow> submodules \<Rightarrow> (camera_ref \<Rightarrow> camera_component) \<Rightarrow> (session_ref \<Rightarrow> xr_session_obj) \<Rightarrow> world" where
  "XrManager_new supported sm cs ss =
     (let w = \<lparr>mgr = XrManager_fields supported, subs = sm, cameras = cs, sessions = ss,
                effects = [], nextView = 0\<rparr>
      in if supported then deviceAvailabilityCheck w else w)"

text \<open>\<open>isAvailable(type)\<close>, lines 530-532: it returns what the read gives.\<close>

definition isAvailable :: "world \<Rightarrow> string \<Rightarrow> available_value" where
  "isAvailable w type = available_get (mgr w) type"

text \<open>The getters \<open>active\<close> (lines 782-784) and \<open>visibilityState\<close> (lines 831-836).\<close>

definition active :: "world \<Rightarrow> bool" where
  "active w = (xr_session (mgr w) \<noteq> None)"

definition get_visibilityState :: "world \<Rightarrow> string option" where
  "get_visibilityState w =
     (case xr_session (mgr w) of
        None \<Rightarrow> None
      | Some s \<Rightarrow> Some (visibilityState (sessions w s)))"

subsection \<open>Clip planes\<close>

text \<open>\<open>_setClipPlanes(near, far)\<close>, lines 646-662.\<close>

definition setClipPlanes :: "num \<Rightarrow> num \<Rightarrow> world \<Rightarrow> world" where
  "setClipPlanes near far w =
     (if xr_depthNear (mgr w) = near \<and> xr_depthFar (mgr w) = far then w
      else
        (let w1 = w\<lparr>mgr := (mgr w)\<lparr>xr_depthNear := near, xr_depthFar := far\<rparr>\<rparr>
         in case xr_session (mgr w1) of
              None \<Rightarrow> w1
            | Some s \<Rightarrow>
                emit (UpdateRenderState s
                  \<lparr>rs_baseLayer = None, rs_depthNear = Some (xr_depthNear (mgr w1)),
                   rs_depthFar = Some (xr_depthFar (mgr w1))\<rparr>) w1))"

text \<open>
  \<open>onClipPlanesChange\<close>, lines 573-575: it reads the clip planes of the manager's bound
  camera, and raises when there is none. The second component is the exception raised.
\<close>

definition onClipPlanesChange :: "world \<Rightarrow> world \<times> js_error option" where
  "onClipPlanesChange w =
     (case xr_camera (mgr w) of
        None \<Rightarrow> (w, Some TypeError)
      | Some c \<Rightarrow> (setClipPlanes (nearClip (cameras w c)) (farClip (cameras w c)) w, None))"

text \<open>
  The camera fires \<open>set_nearClip\<close> or \<open>set_farClip\<close>: the listeners registered under that
  name run in order, and an exception in one ends the dispatch. The camera's own emission of
  these events is not in the manager; here it is an input.
\<close>

fun run_clip_listeners :: "session_ref list \<Rightarrow> world \<Rightarrow> world" where
  "run_clip_listeners [] w = w"
| "run_clip_listeners (l # ls) w =
     (case onClipPlanesChange w of
        (w1, Some e) \<Rightarrow> emit (Uncaught e) w1
      | (w1, None) \<Rightarrow> run_clip_listeners ls w1)"

definition camera_fire :: "camera_ref \<Rightarrow> string \<Rightarrow> world \<Rightarrow> world" where
  "camera_fire c name w =
     (if name = ''set_nearClip'' then run_clip_listeners (set_nearClip (cameras w c)) w
      else if name = ''set_farClip'' then run_clip_listeners (set_farClip (cameras w c)) w
      else w)"

text \<open>
  The setters of \<open>nearClip\<close> and \<open>farClip\<close> that component.js generates (lines 768-784)
  store the value in the scene camera.
\<close>

definition set_nearClip_value :: "camera_ref \<Rightarrow> num \<Rightarrow> world \<Rightarrow> world" where
  "set_nearClip_value c v w = w\<lparr>cameras := (cameras w)(c := (cameras w c)\<lparr>nearClip := v\<rparr>)\<rparr>"

definition set_farClip_value :: "camera_ref \<Rightarrow> num \<Rightarrow> world \<Rightarrow> world" where
  "set_farClip_value c v w = w\<lparr>cameras := (cameras w)(c := (cameras w c)\<lparr>farClip := v\<rparr>)\<rparr>"

subsection \<open>Session negotiation\<close>

text \<open>
  The depth-sensing preference lists of \<open>start\<close>, lines 421-434: \<open>indexOf\<close> and
  \<open>splice(ind, 1)\<close> drop the first occurrence of the preferred value, \<open>unshift\<close> puts it
  in front. An empty string is falsy, as an absent value is.
\<close>

definition preference_list :: "string list \<Rightarrow> string option \<Rightarrow> string list" where
  "preference_list preferences p =
     (case p of
        None \<Rightarrow> preferences
      | Some v \<Rightarrow> if v = [] then preferences else v # remove1 v preferences)"

text \<open>
  What \<open>start\<close> reads from its fourth argument. A bare function has none of the
  option fields.
\<close>

definition options_callback :: "start_options \<Rightarrow> callback option" where
  "options_callback options =
     (case options of
        OptUndefined \<Rightarrow> None
      | OptFunction f \<Rightarrow> Some f
      | OptObject ob \<Rightarrow> o_callback ob)"

definition options_object :: "start_options \<Rightarrow> start_options_object" where
  "options_object options =
     (case options of
        OptObject ob \<Rightarrow> ob
      | _ \<Rightarrow> \<lparr>o_callback = None, o_optionalFeatures = None, o_imageTracking = False,
              o_planeDetection = False, o_depthSensing = None\<rparr>)"

text \<open>The assembly of \<open>opts\<close> in \<open>start\<close>, lines 396-446.\<close>

definition session_options :: "submodules \<Rightarrow> string \<Rightarrow> string \<Rightarrow> start_options \<Rightarrow> session_init" where
  "session_options sm type spaceType options =
     (let ob = options_object options;
          opts = \<lparr>requiredFeatures = [spaceType], optionalFeatures = [], domOverlay = None,
                  depthSensing = None, trackedImages = None\<rparr>;
          opts1 =
            (if type = XRTYPE_AR then
               (let a = opts\<lparr>optionalFeatures := [''light-estimation'', ''hit-test'']
                          @ (if o_imageTracking ob \<and> imageTracking_supported sm
                             then [''image-tracking''] else [])
                          @ (if o_planeDetection ob then [''plane-detection''] else [])\<rparr>;
                    b = (if domOverlay_supported sm \<and> domOverlay_root sm \<noteq> None
                         then a\<lparr>optionalFeatures := optionalFeatures a @ [''dom-overlay''],
                                domOverlay := domOverlay_root sm\<rparr>
                         else a)
                in case o_depthSensing ob of
                     None \<Rightarrow> b
                   | Some ds \<Rightarrow>
                       if depthSensing_supported sm then
                         b\<lparr>optionalFeatures := optionalFeatures b @ [''depth-sensing''],
                           depthSensing := Some
                             \<lparr>usagePreference =
                                preference_list [XRDEPTHSENSINGUSAGE_CPU] (o_usagePreference ds),
                              dataFormatPreference =
                                preference_list [XRDEPTHSENSINGFORMAT_L8A8] (o_dataFormatPreference ds)\<rparr>\<rparr>
                       else b)
             else if type = XRTYPE_VR then opts\<lparr>optionalFeatures := [''hand-tracking'']\<rparr>
             else opts)
      in case o_optionalFeatures ob of
           None \<Rightarrow> opts1
         | Some fs \<Rightarrow> opts1\<lparr>optionalFeatures := optionalFeatures opts1 @ fs\<rparr>)"

text \<open>\<open>_onStartOptionsReady\<close>, lines 473-485: the request to the host.\<close>

definition onStartOptionsReady :: "string \<Rightarrow> session_init \<Rightarrow> world \<Rightarrow> world" where
  "onStartOptionsReady type options w = emit (RequestSession type options) w"

text \<open>
  The rejection handler of that request, lines 476-484. With no bound camera the first
  assignment raises inside the handler.
\<close>

definition requestSession_catch :: "callback option \<Rightarrow> js_error \<Rightarrow> world \<Rightarrow> world" where
  "requestSession_catch callback ex w =
     (case xr_camera (mgr w) of
        None \<Rightarrow> emit (Uncaught TypeError) w
      | Some c \<Rightarrow>
          (let w1 = w\<lparr>cameras := (cameras w)(c := (cameras w c)\<lparr>xr := False\<rparr>),
                      mgr := (mgr w)\<lparr>xr_camera := None, xr_type := None, xr_spaceType := None\<rparr>\<rparr>
           in fire (EvError ex) (call callback (Some ex) w1)))"

text \<open>
  \<open>start(camera, type, spaceType, options)\<close>, lines 365-464. The first test is the
  truthiness of \<open>this._available[type]\<close>: a type that names a member of
  \<open>Object.prototype\<close> passes it, any other key that \<open>_available\<close> lacks does not.
\<close>

definition start :: "camera_ref \<Rightarrow> string \<Rightarrow> string \<Rightarrow> start_options \<Rightarrow> world \<Rightarrow> world" where
  "start camera type spaceType options w =
     (let callback = options_callback options
      in if \<not> available_truthy (available_get (mgr w) type) then
           call callback (Some (Error ''XR is not available'')) w
         else if xr_session (mgr w) \<noteq> None then
           call callback (Some (Error ''XR session is already started'')) w
         else
           (let w1 = w\<lparr>mgr := (mgr w)\<lparr>xr_camera := Some camera\<rparr>\<rparr>;
                w2 = w1\<lparr>cameras := (cameras w1)(camera := (cameras w1 camera)\<lparr>xr := True\<rparr>)\<rparr>;
                w3 = w2\<lparr>mgr := (mgr w2)\<lparr>xr_type := Some type, xr_spaceType := Some spaceType\<rparr>\<rparr>;
                w4 = setClipPlanes (nearClip (cameras w3 camera)) (farClip (cameras w3 camera)) w3;
                opts = session_options (subs w4) type spaceType options
            in if imageTracking_supported (subs w4) \<and> imageTracking_images (subs w4) \<noteq> 0
               then emit PrepareImages w4
               else onStartOptionsReady type opts w4))"

text \<open>
  The callback that \<open>start\<close> hands to \<open>prepareImages\<close>, lines 449-460, with the values
  it closes over.
\<close>

definition prepareImages_callback ::
  "string \<Rightarrow> session_init \<Rightarrow> callback option \<Rightarrow> js_error option \<Rightarrow> nat option \<Rightarrow> world \<Rightarrow> world" where
  "prepareImages_callback type opts callback err tracked w =
     (case err of
        Some e \<Rightarrow> fire (EvError e) (call callback (Some e) w)
      | None \<Rightarrow>
          onStartOptionsReady type
            (case tracked of None \<Rightarrow> opts | Some t \<Rightarrow> opts\<lparr>trackedImages := Some t\<rparr>) w)"

subsection \<open>Reference space, render state and teardown\<close>

text \<open>\<open>this.app.tick()\<close>.\<close>

definition tick :: "world \<Rightarrow> world" where
  "tick w = emit AppTick w"

text \<open>
  \<open>onEnd\<close> of the \<open>_onSessionStart\<close> call for session \<open>s\<close>, lines 578-603.
  \<open>off\<close> removes the \<open>onClipPlanesChange\<close> closure of the same call.
\<close>

definition onEnd :: "session_ref \<Rightarrow> world \<Rightarrow> world" where
  "onEnd s w =
     (let w1 = (case xr_camera (mgr w) of
                  None \<Rightarrow> w
                | Some c \<Rightarrow>
                    w\<lparr>cameras := (cameras w)(c := (cameras w c)
                         \<lparr>xr := False,
                          set_nearClip := removeAll s (set_nearClip (cameras w c)),
                          set_farClip := removeAll s (set_farClip (cameras w c))\<rparr>),
                      mgr := (mgr w)\<lparr>xr_camera := None\<rparr>\<rparr>);
          w2 = w1\<lparr>sessions := (sessions w1)(s := (sessions w1 s)
                     \<lparr>end_listener := False, visibilitychange_listener := False\<rparr>)\<rparr>;
          w3 = (if \<not> failed (sessions w2 s) then fire EvEnd w2 else w2);
          w4 = w3\<lparr>mgr := (mgr w3)\<lparr>xr_session := None, xr_referenceSpace := None, views := [],
                      xr_width := 0, xr_height := 0, xr_type := None, xr_spaceType := None\<rparr>\<rparr>
      in tick w4)"

text \<open>
  \<open>_onSessionStart(session, spaceType, callback)\<close>, lines 564-639, up to the request for
  the reference space. With no bound camera, \<open>this._camera.on\<close> raises after the session
  listeners are registered; the second component is that exception.
\<close>

definition onSessionStart :: "session_ref \<Rightarrow> string \<Rightarrow> world \<Rightarrow> world \<times> js_error option" where
  "onSessionStart s spaceType w =
     (let w1 = w\<lparr>mgr := (mgr w)\<lparr>xr_session := Some s\<rparr>,
                 sessions := (sessions w)(s := (sessions w s)
                   \<lparr>end_listener := True, visibilitychange_listener := True, failed := False\<rparr>)\<rparr>
      in case xr_camera (mgr w1) of
           None \<Rightarrow> (w1, Some TypeError)
         | Some c \<Rightarrow>
             (let w2 = w1\<lparr>cameras := (cameras w1)(c := (cameras w1 c)
                          \<lparr>set_nearClip := set_nearClip (cameras w1 c) @ [s],
                           set_farClip := set_farClip (cameras w1 c) @ [s]\<rparr>)\<rparr>;
                  bl = XRWebGLLayer s True True True;
                  w3 = w2\<lparr>mgr := (mgr w2)\<lparr>xr_baseLayer := Some bl\<rparr>\<rparr>;
                  w4 = emit (UpdateRenderState s
                         \<lparr>rs_baseLayer = Some bl, rs_depthNear = Some (xr_depthNear (mgr w3)),
                          rs_depthFar = Some (xr_depthFar (mgr w3))\<rparr>) w3
              in (emit (RequestReferenceSpace s spaceType) w4, None)))"

text \<open>
  The fulfilment handler of \<open>requestSession\<close>, lines 474-476; an exception raised in it
  reaches the rejection handler chained after it.
\<close>

definition requestSession_then :: "session_ref \<Rightarrow> string \<Rightarrow> callback option \<Rightarrow> world \<Rightarrow> world" where
  "requestSession_then s spaceType callback w =
     (case onSessionStart s spaceType w of
        (w1, None) \<Rightarrow> w1
      | (w1, Some e) \<Rightarrow> requestSession_catch callback e w1)"

text \<open>The two handlers of \<open>requestReferenceSpace\<close>, lines 624-638.\<close>

definition requestReferenceSpace_then :: "callback option \<Rightarrow> nat \<Rightarrow> world \<Rightarrow> world" where
  "requestReferenceSpace_then callback referenceSpace w =
     fire EvStart (call callback None
       (tick (w\<lparr>mgr := (mgr w)\<lparr>xr_referenceSpace := Some referenceSpace\<rparr>\<rparr>)))"

definition requestReferenceSpace_catch :: "session_ref \<Rightarrow> callback option \<Rightarrow> js_error \<Rightarrow> world \<Rightarrow> world" where
  "requestReferenceSpace_catch s callback ex w =
     (let w1 = w\<lparr>sessions := (sessions w)(s := (sessions w s)\<lparr>failed := True\<rparr>)\<rparr>;
          w2 = emit (SessionEnd s) w1
      in fire (EvError ex) (call callback (Some ex) w2))"

text \<open>
  The host dispatches \<open>end\<close> or \<open>visibilitychange\<close> on a session: the listener runs if it
  is still registered (lines 569-571 and 605-606).
\<close>

definition session_dispatch_end :: "session_ref \<Rightarrow> world \<Rightarrow> world" where
  "session_dispatch_end s w = (if end_listener (sessions w s) then onEnd s w else w)"

definition session_dispatch_visibilitychange :: "session_ref \<Rightarrow> string \<Rightarrow> world \<Rightarrow> world" where
  "session_dispatch_visibilitychange s v w =
     (let w1 = w\<lparr>sessions := (sessions w)(s := (sessions w s)\<lparr>visibilityState := v\<rparr>)\<rparr>
      in if visibilitychange_listener (sessions w1 s)
         then fire (EvVisibilityChange (visibilityState (sessions w1 s))) w1
         else w1)"

text \<open>\<open>end(callback)\<close>, lines 501-510. The method is named \<open>xr_end\<close> here.\<close>

definition xr_end :: "callback option \<Rightarrow> world \<Rightarrow> world" where
  "xr_end callback w =
     (case xr_session (mgr w) of
        None \<Rightarrow> call callback (Some (Error ''XR Session is not initialized'')) w
      | Some s \<Rightarrow>
          (let w1 = (case callback of
                       None \<Rightarrow> w
                     | Some f \<Rightarrow> w\<lparr>mgr := (mgr w)\<lparr>end_once := end_once (mgr w) @ [f]\<rparr>\<rparr>)
           in emit (SessionEnd s) w1))"

subsection \<open>The view pool and the per-frame update\<close>

text \<open>
  The growth loop of \<open>update\<close>, lines 690-708, on the active list, the pool and the
  allocation count. Its bound \<open>i <= (lengthNew - this.views.length)\<close> is read again
  before every iteration, with the list already longer. \<open>pop\<close> takes the last entry
  of the pool; an empty pool gives \<open>undefined\<close> and a new record is made.
\<close>

function add_views ::
  "nat \<Rightarrow> nat \<Rightarrow> xr_view list \<times> xr_view list \<times> nat \<Rightarrow> xr_view list \<times> xr_view list \<times> nat" where
  "add_views lengthNew i (vs, pool, n) =
     (if int i \<le> int lengthNew - int (length vs) then
        (if pool = [] then add_views lengthNew (Suc i) (vs @ [new_view n], pool, Suc n)
         else add_views lengthNew (Suc i) (vs @ [last pool], butlast pool, n))
      else (vs, pool, n))"
  by pat_completeness auto
termination
  by (relation "measure (\<lambda>(lengthNew, i, vs, pool, n). nat (int lengthNew + 1 - int i - int (length vs)))")
     auto

text \<open>
  The shrink loop, lines 711-713; its bound \<open>i < (this.views.length - lengthNew)\<close> is
  read again before every iteration too.
\<close>

function remove_views :: "nat \<Rightarrow> nat \<Rightarrow> xr_view list \<times> xr_view list \<Rightarrow> xr_view list \<times> xr_view list" where
  "remove_views lengthNew i (vs, pool) =
     (if int i < int (length vs) - int lengthNew then
        remove_views lengthNew (Suc i) (butlast vs, pool @ [last vs])
      else (vs, pool))"
  by pat_completeness auto
termination
  by (relation "measure (\<lambda>(lengthNew, i, vs, pool). nat (int (length vs) - int lengthNew - int i))")
     auto

declare add_views.simps [simp del]
declare remove_views.simps [simp del]

text \<open>The resize step, lines 686-714.\<close>

definition resize_views :: "nat \<Rightarrow> world \<Rightarrow> world" where
  "resize_views lengthNew w =
     (if lengthNew > length (views (mgr w)) then
        (let (vs, pool, n) = add_views lengthNew 0 (views (mgr w), viewsPool (mgr w), nextView w)
         in w\<lparr>mgr := (mgr w)\<lparr>views := vs, viewsPool := pool\<rparr>, nextView := n\<rparr>)
      else if lengthNew \<le> length (views (mgr w)) then
        (let (vs, pool) = remove_views lengthNew 0 (views (mgr w), viewsPool (mgr w))
         in w\<lparr>mgr := (mgr w)\<lparr>views := vs, viewsPool := pool\<rparr>\<rparr>)
      else w)"

text \<open>
  The loop over the raw views, lines 724-738, from index \<open>i\<close>. \<open>this.views[i]\<close> beyond
  the end of the list is \<open>undefined\<close>, and reading \<open>view.viewport\<close> raises; the entries
  written before that stay written.
\<close>

fun write_views :: "raw_view list \<Rightarrow> nat \<Rightarrow> xr_view list \<Rightarrow> xr_view list \<times> js_error option" where
  "write_views [] i vs = (vs, None)"
| "write_views (r # rs) i vs =
     (if i < length vs then
        write_views rs (Suc i)
          (vs[i := (vs ! i)\<lparr>viewport := layer_viewport r, projMat := projectionMatrix r,
                             viewMat := transform_inverse_matrix r,
                             viewInvMat := transform_matrix r\<rparr>])
      else (vs, Some TypeError))"

datatype 'a outcome = Returned 'a | Threw js_error

text \<open>The sub-module updates of an AR session, lines 746-761.\<close>

definition update_ar_submodules :: "world \<Rightarrow> world" where
  "update_ar_submodules w =
     (let sm = subs w;
          w1 = (if hitTest_supported sm then emit (SubmoduleUpdate ''hitTest'') w else w);
          w2 = (if lightEstimation_supported sm then emit (SubmoduleUpdate ''lightEstimation'') w1 else w1);
          w3 = (if depthSensing_supported sm then emit (SubmoduleUpdate ''depthSensing'') w2 else w2);
          w4 = (if imageTracking_supported sm then emit (SubmoduleUpdate ''imageTracking'') w3 else w3)
      in if planeDetection_supported sm then emit (SubmoduleUpdate ''planeDetection'') w4 else w4)"

text \<open>
  The resolution check of \<open>update\<close>, lines 674-680: the framebuffer size of the frame's
  base layer against the cached one.
\<close>

definition update_resolution :: "xr_frame \<Rightarrow> world \<Rightarrow> world" where
  "update_resolution frame w =
     (let width = framebufferWidth frame;
          height = framebufferHeight frame
      in if xr_width (mgr w) \<noteq> width \<or> xr_height (mgr w) \<noteq> height
         then emit (SetResolution width height)
                (w\<lparr>mgr := (mgr w)\<lparr>xr_width := width, xr_height := height\<rparr>\<rparr>)
         else w)"

text \<open>
  \<open>update(frame)\<close>, lines 670-766. The world is returned also when the call raises:
  what was written before the exception stays written.
\<close>

definition update :: "xr_frame \<Rightarrow> world \<Rightarrow> world \<times> bool outcome" where
  "update frame w =
     (case xr_session (mgr w) of
        None \<Rightarrow> (w, Returned False)
      | Some s \<Rightarrow>
          (let w1 = update_resolution frame w
           in case viewerPose frame of
                None \<Rightarrow> (w1, Returned False)
              | Some pose \<Rightarrow>
                  (let lengthNew = length (pose_views pose);
                       w2 = resize_views lengthNew w1;
                       w3 = w2\<lparr>mgr := (mgr w2)\<lparr>xr_localPosition := pose_position pose,
                                                 xr_localRotation := pose_orientation pose\<rparr>\<rparr>;
                       (vs, err) = write_views (pose_views pose) 0 (views (mgr w3));
                       w4 = w3\<lparr>mgr := (mgr w3)\<lparr>views := vs\<rparr>\<rparr>
                   in case err of
                        Some e \<Rightarrow> (w4, Threw e)
                      | None \<Rightarrow>
                          (case xr_camera (mgr w4) of
                             None \<Rightarrow> (w4, Threw TypeError)
                           | Some c \<Rightarrow>
                               (let w5 = w4\<lparr>cameras := (cameras w4)(c := (cameras w4 c)
                                            \<lparr>node_localPosition := xr_localPosition (mgr w4),
                                             node_localRotation := xr_localRotation (mgr w4)\<rparr>)\<rparr>;
                                    w6 = emit (SubmoduleUpdate ''input'') w5;
                                    w7 = (if xr_type (mgr w6) = Some XRTYPE_AR
                                          then update_ar_submodules w6 else w6)
                                in (fire EvUpdate w7, Returned True))))))"

text \<open>
  A frame for a framebuffer of the given size whose viewer pose has \<open>k\<close> views, each
  with identity matrices and the whole framebuffer as its viewport.
\<close>

definition frame_with_views :: "nat \<Rightarrow> nat \<Rightarrow> nat \<Rightarrow> xr_frame" where
  "frame_with_views fw fh k =
     \<lparr>framebufferWidth = fw, framebufferHeight = fh,
      viewerPose = Some \<lparr>pose_position = (0, 0, 0), pose_orientation = (0, 0, 0, 1),
        pose_views = replicate k \<lparr>projectionMatrix = Mat4_new, transform_matrix = Mat4_new,
          transform_inverse_matrix = Mat4_new, layer_viewport = (0, 0, real fw, real fh)\<rparr>\<rparr>\<rparr>"

text \<open>
  A run of \<open>update\<close> calls, one per frame, while every call returns \<open>true\<close>;
  \<open>None\<close> as soon as one call returns \<open>false\<close> or raises.
\<close>

fun update_frames :: "xr_frame list \<Rightarrow> world \<Rightarrow> world option" where
  "update_frames [] w = Some w"
| "update_frames (f # fs) w =
     (case update f w of
        (w1, Returned True) \<Rightarrow> update_frames fs w1
      | _ \<Rightarrow> None)"

text \<open>The number of views of a frame's pose, when it has one.\<close>

definition frame_views :: "xr_frame \<Rightarrow> nat" where
  "frame_views f = (case viewerPose f of None \<Rightarrow> 0 | Some p \<Rightarrow> length (pose_views p))"

subsection \<open>The manager as a reactive system\<close>

text \<open>
  Every way control enters the manager: the public methods, the handlers of the promises it
  created (with the values each handler closes over), the events of the session and of the
  camera, and the setters of the camera's clip planes.
\<close>

datatype input =
    Start camera_ref string string start_options
  | End "callback option"
  | Update xr_frame
  | DeviceChange
  | SupportCheckResolved string bool
  | SupportCheckRejected js_error
  | ImagesPrepared string session_init "callback option" "js_error option" "nat option"
  | SessionResolved session_ref string "callback option"
  | SessionRejected "callback option" js_error
  | ReferenceSpaceResolved "callback option" nat
  | ReferenceSpaceRejected session_ref "callback option" js_error
  | SessionEndEvent session_ref
  | SessionVisibilityChange session_ref string
  | CameraEvent camera_ref string
  | SetNearClip camera_ref num
  | SetFarClip camera_ref num

fun step :: "input \<Rightarrow> world \<Rightarrow> world" where
  "step (Start c t sp options) w = start c t sp options w"
| "step (End cb) w = xr_end cb w"
| "step (Update f) w = fst (update f w)"
| "step DeviceChange w = deviceAvailabilityCheck w"
| "step (SupportCheckResolved t av) w = isSessionSupported_then t av w"
| "step (SupportCheckRejected ex) w = isSessionSupported_catch ex w"
| "step (ImagesPrepared t opts cb err tracked) w = prepareImages_callback t opts cb err tracked w"
| "step (SessionResolved s sp cb) w = requestSession_then s sp cb w"
| "step (SessionRejected cb ex) w = requestSession_catch cb ex w"
| "step (ReferenceSpaceResolved cb r) w = requestReferenceSpace_then cb r w"
| "step (ReferenceSpaceRejected s cb ex) w = requestReferenceSpace_catch s cb ex w"
| "step (SessionEndEvent s) w = session_dispatch_end s w"
| "step (SessionVisibilityChange s v) w = session_dispatch_visibilitychange s v w"
| "step (CameraEvent c name) w = camera_fire c name w"
| "step (SetNearClip c v) w = set_nearClip_value c v w"
| "step (SetFarClip c v) w = set_farClip_value c v w"

fun run :: "input list \<Rightarrow> world \<Rightarrow> world" where
  "run [] w = w"
| "run (i # is) w = run is (step i w)"

text \<open>An input that completes a support check with an answer.\<close>

fun is_support_check_result :: "input \<Rightarrow> bool" where
  "is_support_check_result (SupportCheckResolved t av) = True"
| "is_support_check_result _ = False"

text \<open>
  The largest view count among the frames of a run (zero for no frame), and the view records
  the manager holds: the active ones and the pooled ones.
\<close>

definition max_views :: "xr_frame list \<Rightarrow> nat" where
  "max_views fs = foldr max (map frame_views fs) 0"

definition held_views :: "world \<Rightarrow> xr_view list" where
  "held_views w = views (mgr w) @ viewsPool (mgr w)"

subsection \<open>A small application around the manager\<close>

text \<open>
  Concrete surroundings for running the model: a host that supports XR, sub-modules of
  which depth sensing and hit test are supported and image tracking is not, cameras with
  the manager's default clip planes, and sessions that report themselves visible.
\<close>

definition example_submodules :: submodules where
  "example_submodules =
     \<lparr>imageTracking_supported = False, imageTracking_images = 0, domOverlay_supported = False,
      domOverlay_root = None, depthSensing_supported = True, hitTest_supported = True,
      lightEstimation_supported = False, planeDetection_supported = False\<rparr>"

definition example_session :: xr_session_obj where
  "example_session =
     \<lparr>visibilityState = ''visible'', end_listener = False, visibilitychange_listener = False,
      failed = False\<rparr>"

definition example_world :: world where
  "example_world =
     XrManager_new True example_submodules (\<lambda>c. new_camera 0.1 1000 []) (\<lambda>s. example_session)"

text \<open>The same application with image tracking supported and one image configured.\<close>

definition example_world_images :: world where
  "example_world_images =
     example_world\<lparr>subs := example_submodules\<lparr>imageTracking_supported := True,
                                                 imageTracking_images := 1\<rparr>\<rparr>"

text \<open>
  Stages of one VR start in that application: the session requested, the session bound
  with its render state, and the session active after the reference space arrived. The
  last one is a start that waits for its images.
\<close>

definition example_negotiating :: world where
  "example_negotiating =
     run [SupportCheckResolved XRTYPE_VR True, Start 0 XRTYPE_VR ''local-floor'' (OptFunction 1)]
       example_world"

definition example_bound :: world where
  "example_bound = run [SessionResolved 5 ''local-floor'' (Some 1)] example_negotiating"

definition example_active :: world where
  "example_active = run [ReferenceSpaceResolved (Some 1) 9] example_bound"

definition example_preparing :: world where
  "example_preparing =
     run [SupportCheckResolved XRTYPE_VR True, Start 0 XRTYPE_VR ''local-floor'' (OptFunction 1)]
       example_world_images"

section \<open>Basic facts\<close>

lemmas xr_defs =
  example_world_def example_submodules_def example_session_def
  available_get_def available_set_def Object_prototype_keys_def
  XrManager_new_def XrManager_fields_def deviceAvailabilityCheck_def sessionSupportCheck_def
  isSessionSupported_then_def isSessionSupported_catch_def start_def options_callback_def
  options_object_def session_options_def onStartOptionsReady_def prepareImages_callback_def
  requestSession_then_def requestSession_catch_def onSessionStart_def
  requestReferenceSpace_then_def requestReferenceSpace_catch_def session_dispatch_end_def
  session_dispatch_visibilitychange_def onEnd_def xr_end_def tick_def emit_def call_def fire_def
  setClipPlanes_def onClipPlanesChange_def camera_fire_def set_nearClip_value_def
  set_farClip_value_def new_camera_def Let_def XRTYPE_INLINE_def XRTYPE_VR_def XRTYPE_AR_def
  preference_list_def XRDEPTHSENSINGUSAGE_CPU_def XRDEPTHSENSINGFORMAT_L8A8_def

lemmas upd_defs =
  update_def update_resolution_def resize_views_def update_ar_submodules_def
  add_views.simps remove_views.simps new_view_def

lemmas ex_defs =
  example_negotiating_def example_bound_def example_active_def

lemma emit_simps [simp]:
  "mgr (emit e w) = mgr w" "cameras (emit e w) = cameras w" "sessions (emit e w) = sessions w"
  "subs (emit e w) = subs w" "nextView (emit e w) = nextView w"
  "effects (emit e w) = effects w @ [e]"
  by (simp_all add: emit_def)

lemma call_simps [simp]:
  "mgr (call cb er w) = mgr w" "cameras (call cb er w) = cameras w"
  "sessions (call cb er w) = sessions w" "subs (call cb er w) = subs w"
  "nextView (call cb er w) = nextView w"
  by (simp_all add: call_def split: option.splits)

lemma example_active_fields:
  "views (mgr example_active) = []" "viewsPool (mgr example_active) = []"
  "nextView example_active = 0" "xr_session (mgr example_active) = Some 5"
  "xr_camera (mgr example_active) = Some 0" "xr_type (mgr example_active) = Some XRTYPE_VR"
  "set_nearClip (cameras example_active 0) = [5]" "set_farClip (cameras example_active 0) = [5]"
  "nearClip (cameras example_active 0) = 0.1" "farClip (cameras example_active 0) = 1000"
  "xr_depthNear (mgr example_active) = 0.1" "xr_depthFar (mgr example_active) = 1000"
  "xr_available (mgr example_active) XRTYPE_VR = Some True"
  by (simp_all add: ex_defs xr_defs)

subsection \<open>Only a completed support check writes the availability flags\<close>

lemma available_fire [simp]: "xr_available (mgr (fire n w)) = xr_available (mgr w)"
  by (simp add: fire_def Let_def)

lemma available_setClipPlanes [simp]:
  "xr_available (mgr (setClipPlanes a b w)) = xr_available (mgr w)"
  by (simp add: setClipPlanes_def Let_def split: option.splits)

lemma available_start: "xr_available (mgr (start c t sp options w)) = xr_available (mgr w)"
  by (simp add: start_def Let_def onStartOptionsReady_def)

lemma available_onEnd: "xr_available (mgr (onEnd s w)) = xr_available (mgr w)"
  by (simp add: onEnd_def Let_def tick_def split: option.splits)

lemma available_requestSession_catch:
  "xr_available (mgr (requestSession_catch cb ex w)) = xr_available (mgr w)"
  by (simp add: requestSession_catch_def Let_def split: option.splits)

lemma available_requestSession_then:
  "xr_available (mgr (requestSession_then s sp cb w)) = xr_available (mgr w)"
  by (simp add: requestSession_then_def onSessionStart_def Let_def available_requestSession_catch
           split: option.splits prod.splits)

lemma available_resize: "xr_available (mgr (resize_views k w)) = xr_available (mgr w)"
  by (simp add: resize_views_def Let_def split: prod.splits)

lemma available_ar: "xr_available (mgr (update_ar_submodules w)) = xr_available (mgr w)"
  by (simp add: update_ar_submodules_def Let_def)

lemma available_update: "xr_available (mgr (fst (update f w))) = xr_available (mgr w)"
  by (simp add: update_def update_resolution_def Let_def available_resize available_ar
        split: option.splits prod.splits)

lemma available_run_clip:
  "xr_available (mgr (run_clip_listeners ls w)) = xr_available (mgr w)"
  by (induction ls arbitrary: w) (simp_all add: onClipPlanesChange_def split: option.splits)

lemma available_step:
  "\<not> is_support_check_result i \<Longrightarrow> xr_available (mgr (step i w)) = xr_available (mgr w)"
  by (cases i)
     (simp_all add: available_start available_update available_requestSession_then
        available_requestSession_catch available_run_clip available_onEnd
        xr_end_def deviceAvailabilityCheck_def sessionSupportCheck_def isSessionSupported_catch_def
        prepareImages_callback_def onStartOptionsReady_def requestReferenceSpace_then_def tick_def
        requestReferenceSpace_catch_def Let_def session_dispatch_end_def
        session_dispatch_visibilitychange_def camera_fire_def set_nearClip_value_def
        set_farClip_value_def split: option.splits)

lemma available_run:
  "list_all (\<lambda>i. \<not> is_support_check_result i) ins \<Longrightarrow>
   xr_available (mgr (run ins w)) = xr_available (mgr w)"
  by (induction ins arbitrary: w) (simp_all add: available_step)

lemma available_new:
  "xr_available (mgr (XrManager_new supported sm cs ss)) =
     [XRTYPE_INLINE \<mapsto> False, XRTYPE_VR \<mapsto> False, XRTYPE_AR \<mapsto> False]"
  by (simp add: XrManager_new_def XrManager_fields_def deviceAvailabilityCheck_def
        sessionSupportCheck_def Let_def)

subsection \<open>The two resize loops and the frame loop\<close>

lemma add_views_stop:
  "\<not> int i \<le> int N - int (length vs) \<Longrightarrow> add_views N i (vs, pool, n) = (vs, pool, n)"
  by (subst add_views.simps) simp

lemma add_views_new:
  "int i \<le> int N - int (length vs) \<Longrightarrow>
   add_views N i (vs, [], n) = add_views N (Suc i) (vs @ [new_view n], [], Suc n)"
  by (subst add_views.simps) simp

lemma add_views_pop:
  "int i \<le> int N - int (length vs) \<Longrightarrow> pool \<noteq> [] \<Longrightarrow>
   add_views N i (vs, pool, n) = add_views N (Suc i) (vs @ [last pool], butlast pool, n)"
  by (subst add_views.simps) simp

lemma remove_views_stop:
  "\<not> int i < int (length vs) - int N \<Longrightarrow> remove_views N i (vs, pool) = (vs, pool)"
  by (subst remove_views.simps) simp

lemma remove_views_pop:
  "int i < int (length vs) - int N \<Longrightarrow>
   remove_views N i (vs, pool) = remove_views N (Suc i) (butlast vs, pool @ [last vs])"
  by (subst remove_views.simps) simp

lemma mset_vid_butlast:
  "pool \<noteq> [] \<Longrightarrow> add_mset (vid (last pool)) (mset (map vid (butlast pool))) = mset (map vid pool)"
proof -
  assume "pool \<noteq> []"
  then have "pool = butlast pool @ [last pool]" by simp
  then have "mset (map vid pool) = mset (map vid (butlast pool @ [last pool]))" by simp
  then show ?thesis by simp
qed

lemma add_views_props:
  "add_views N i (vs, pool, n) = (vs', pool', n') \<Longrightarrow>
     n \<le> n' \<and> length vs \<le> length vs'
     \<and> n' - n = (length vs' - length vs) - length pool
     \<and> length pool' = length pool - (length vs' - length vs)
     \<and> mset (map vid (vs' @ pool')) = mset (map vid (vs @ pool)) + mset [n..<n']"
proof (induction N i "(vs, pool, n)" arbitrary: vs pool n rule: add_views.induct)
  case (1 N i vs pool n)
  show ?case
  proof (cases "int i \<le> int N - int (length vs)")
    case False
    with "1.prems" show ?thesis by (simp add: add_views_stop)
  next
    case True
    show ?thesis
    proof (cases "pool = []")
      case e: True
      from "1.prems" True e
      have r: "add_views N (Suc i) (vs @ [new_view n], pool, Suc n) = (vs', pool', n')"
        by (simp add: add_views_new)
      from "1.hyps"(1) [OF True e r] e
      show ?thesis
        by (auto simp: new_view_def upt_conv_Cons)
    next
      case ne: False
      from "1.prems" True ne
      have r: "add_views N (Suc i) (vs @ [last pool], butlast pool, n) = (vs', pool', n')"
        by (simp add: add_views_pop)
      have lp: "0 < length pool" using ne by simp
      from "1.hyps"(2) [OF True ne r] mset_vid_butlast [OF ne] lp
      show ?thesis
        by auto
    qed
  qed
qed

lemma add_views_upper:
  "add_views N i (vs, pool, n) = (vs', pool', n') \<Longrightarrow> 0 < i \<or> length vs < N \<Longrightarrow>
   length vs' \<le> max N (length vs)"
proof (induction N i "(vs, pool, n)" arbitrary: vs pool n rule: add_views.induct)
  case (1 N i vs pool n)
  show ?case
  proof (cases "int i \<le> int N - int (length vs)")
    case False
    with "1.prems" show ?thesis by (simp add: add_views_stop)
  next
    case True
    show ?thesis
    proof (cases "pool = []")
      case e: True
      from "1.prems" True e
      have r: "add_views N (Suc i) (vs @ [new_view n], pool, Suc n) = (vs', pool', n')"
        by (simp add: add_views_new)
      from "1.hyps"(1) [OF True e r] True "1.prems"(2)
      show ?thesis by auto
    next
      case ne: False
      from "1.prems" True ne
      have r: "add_views N (Suc i) (vs @ [last pool], butlast pool, n) = (vs', pool', n')"
        by (simp add: add_views_pop)
      from "1.hyps"(2) [OF True ne r] True "1.prems"(2)
      show ?thesis by auto
    qed
  qed
qed

lemma remove_views_props:
  "remove_views N i (vs, pool) = (vs', pool') \<Longrightarrow>
     vs' @ rev pool' = vs @ rev pool \<and> length vs' \<le> length vs
     \<and> (N \<le> length vs \<longrightarrow> N \<le> length vs')"
proof (induction N i "(vs, pool)" arbitrary: vs pool rule: remove_views.induct)
  case (1 N i vs pool)
  show ?case
  proof (cases "int i < int (length vs) - int N")
    case False
    with "1.prems" show ?thesis by (simp add: remove_views_stop)
  next
    case True
    then have ne: "vs \<noteq> []" by auto
    from "1.prems" True
    have r: "remove_views N (Suc i) (butlast vs, pool @ [last vs]) = (vs', pool')"
      by (simp add: remove_views_pop)
    from "1.hyps" [OF True r] ne True
    show ?thesis by auto
  qed
qed

lemma write_views_props:
  "write_views rs i vs = (vs', None) \<Longrightarrow> i \<le> length vs \<Longrightarrow>
     i + length rs \<le> length vs \<and> length vs' = length vs \<and> map vid vs' = map vid vs"
proof (induction rs arbitrary: i vs)
  case Nil
  then show ?case by simp
next
  case (Cons r rs)
  from Cons.prems have lt: "i < length vs"
    by (simp split: if_splits)
  with Cons.prems
  have "write_views rs (Suc i)
          (vs[i := (vs ! i)\<lparr>viewport := layer_viewport r, projMat := projectionMatrix r,
                             viewMat := transform_inverse_matrix r,
                             viewInvMat := transform_matrix r\<rparr>]) = (vs', None)"
    by simp
  from Cons.IH [OF this] lt show ?case
    by (simp add: map_update list_update_same_conv)
qed

lemma resize_views_grow:
  assumes "length (views (mgr w)) < N"
  shows "length (views (mgr (resize_views N w))) \<le> N
     \<and> length (views (mgr w)) \<le> length (views (mgr (resize_views N w)))
     \<and> nextView w \<le> nextView (resize_views N w)
     \<and> nextView (resize_views N w) - nextView w
          = (length (views (mgr (resize_views N w))) - length (views (mgr w)))
            - length (viewsPool (mgr w))
     \<and> length (viewsPool (mgr (resize_views N w)))
          = length (viewsPool (mgr w))
            - (length (views (mgr (resize_views N w))) - length (views (mgr w)))
     \<and> mset (map vid (views (mgr (resize_views N w)) @ viewsPool (mgr (resize_views N w))))
          = mset (map vid (views (mgr w) @ viewsPool (mgr w)))
            + mset [nextView w..<nextView (resize_views N w)]"
proof -
  obtain vs' pool' n' where
    r: "add_views N 0 (views (mgr w), viewsPool (mgr w), nextView w) = (vs', pool', n')"
    by (cases "add_views N 0 (views (mgr w), viewsPool (mgr w), nextView w)") auto
  have f: "views (mgr (resize_views N w)) = vs'" "viewsPool (mgr (resize_views N w)) = pool'"
       "nextView (resize_views N w) = n'"
    using assms r by (simp_all add: resize_views_def)
  from add_views_props [OF r] add_views_upper [OF r] assms
  show ?thesis unfolding f by auto
qed

lemma resize_views_shrink:
  assumes "N \<le> length (views (mgr w))"
  shows "N \<le> length (views (mgr (resize_views N w)))
     \<and> length (views (mgr (resize_views N w))) \<le> length (views (mgr w))
     \<and> nextView (resize_views N w) = nextView w
     \<and> views (mgr (resize_views N w)) @ rev (viewsPool (mgr (resize_views N w)))
          = views (mgr w) @ rev (viewsPool (mgr w))"
proof -
  obtain vs' pool' where
    r: "remove_views N 0 (views (mgr w), viewsPool (mgr w)) = (vs', pool')"
    by (cases "remove_views N 0 (views (mgr w), viewsPool (mgr w))") auto
  have f: "views (mgr (resize_views N w)) = vs'" "viewsPool (mgr (resize_views N w)) = pool'"
       "nextView (resize_views N w) = nextView w"
    using assms r by (simp_all add: resize_views_def)
  from remove_views_props [OF r] assms
  show ?thesis unfolding f by auto
qed

lemma add_views_length:
  "length (fst (add_views N i (vs, pool, n))) =
     (if int i \<le> int N - int (length vs)
      then length vs + nat ((int N - int (length vs) - int i) div 2) + 1
      else length vs)"
proof (induction N i "(vs, pool, n)" arbitrary: vs pool n rule: add_views.induct)
  case (1 N i vs pool n)
  show ?case
  proof (cases "int i \<le> int N - int (length vs)")
    case False
    then show ?thesis by (simp add: add_views_stop)
  next
    case True
    show ?thesis
    proof (cases "pool = []")
      case e: True
      have "length (fst (add_views N i (vs, pool, n)))
            = length (fst (add_views N (Suc i) (vs @ [new_view n], pool, Suc n)))"
        using True e by (simp add: add_views_new)
      also have "\<dots> = length vs + nat ((int N - int (length vs) - int i) div 2) + 1"
        using "1.hyps"(1) [OF True e] True by (auto simp: nat_add_distrib; presburger)
      finally show ?thesis using True by simp
    next
      case ne: False
      have "length (fst (add_views N i (vs, pool, n)))
            = length (fst (add_views N (Suc i) (vs @ [last pool], butlast pool, n)))"
        using True ne by (simp add: add_views_pop)
      also have "\<dots> = length vs + nat ((int N - int (length vs) - int i) div 2) + 1"
        using "1.hyps"(2) [OF True ne] True by (auto simp: nat_add_distrib; presburger)
      finally show ?thesis using True by simp
    qed
  qed
qed

lemma remove_views_length:
  "length (fst (remove_views N i (vs, pool))) =
     (if int i < int (length vs) - int N
      then length vs - nat ((int (length vs) - int N - int i + 1) div 2)
      else length vs)"
proof (induction N i "(vs, pool)" arbitrary: vs pool rule: remove_views.induct)
  case (1 N i vs pool)
  show ?case
  proof (cases "int i < int (length vs) - int N")
    case False
    then show ?thesis by (simp add: remove_views_stop)
  next
    case True
    have "length (fst (remove_views N i (vs, pool)))
          = length (fst (remove_views N (Suc i) (butlast vs, pool @ [last vs])))"
      using True by (simp add: remove_views_pop)
    also have "\<dots> = length vs - nat ((int (length vs) - int N - int i + 1) div 2)"
      using "1.hyps" [OF True] True by (auto simp: nat_add_distrib; presburger)
    finally show ?thesis using True by simp
  qed
qed

lemma resize_views_length:
  "length (views (mgr (resize_views N w))) =
     (if length (views (mgr w)) < N
      then length (views (mgr w)) + (N - length (views (mgr w))) div 2 + 1
      else length (views (mgr w)) - (length (views (mgr w)) - N + 1) div 2)"
proof (cases "length (views (mgr w)) < N")
  case True
  have "views (mgr (resize_views N w))
        = fst (add_views N 0 (views (mgr w), viewsPool (mgr w), nextView w))"
    using True by (simp add: resize_views_def split: prod.splits)
  with add_views_length [of N 0 "views (mgr w)" "viewsPool (mgr w)" "nextView w"] True
  show ?thesis
    by (simp add: nat_div_distrib nat_diff_distrib) 
next
  case False
  have "views (mgr (resize_views N w))
        = fst (remove_views N 0 (views (mgr w), viewsPool (mgr w)))"
    using False by (simp add: resize_views_def split: prod.splits)
  with remove_views_length [of N 0 "views (mgr w)" "viewsPool (mgr w)"] False
  show ?thesis
    by (auto simp: nat_div_distrib nat_diff_distrib nat_add_distrib) 
qed

lemma update_ar_submodules_frame [simp]:
  "mgr (update_ar_submodules w) = mgr w" "nextView (update_ar_submodules w) = nextView w"
  by (simp_all add: update_ar_submodules_def Let_def)

lemma update_resolution_frame [simp]:
  "views (mgr (update_resolution f w)) = views (mgr w)"
  "viewsPool (mgr (update_resolution f w)) = viewsPool (mgr w)"
  "nextView (update_resolution f w) = nextView w"
  by (simp_all add: update_resolution_def Let_def)

lemma update_returned_true:
  assumes "update f w = (w', Returned True)"
  shows "\<exists>pose vs. viewerPose f = Some pose
     \<and> write_views (pose_views pose) 0
          (views (mgr (resize_views (length (pose_views pose)) (update_resolution f w)))) = (vs, None)
     \<and> views (mgr w') = vs
     \<and> viewsPool (mgr w') = viewsPool (mgr (resize_views (length (pose_views pose)) (update_resolution f w)))
     \<and> nextView w' = nextView (resize_views (length (pose_views pose)) (update_resolution f w))"
  using assms
  by (auto simp: update_def Let_def fire_def split: option.splits prod.splits if_splits)

lemma update_true_pool:
  assumes "update f w = (w', Returned True)"
  shows "frame_views f \<le> length (views (mgr w'))
     \<and> nextView w \<le> nextView w'
     \<and> length (held_views w') = max (length (held_views w)) (frame_views f)
     \<and> nextView w' - nextView w = length (held_views w') - length (held_views w)
     \<and> mset (map vid (held_views w')) = mset (map vid (held_views w)) + mset [nextView w..<nextView w']"
proof -
  from update_returned_true [OF assms] obtain pose vs where
    p: "viewerPose f = Some pose"
    and wv: "write_views (pose_views pose) 0
          (views (mgr (resize_views (length (pose_views pose)) (update_resolution f w)))) = (vs, None)"
    and v: "views (mgr w') = vs"
    and pl: "viewsPool (mgr w') = viewsPool (mgr (resize_views (length (pose_views pose)) (update_resolution f w)))"
    and n: "nextView w' = nextView (resize_views (length (pose_views pose)) (update_resolution f w))"
    by blast
  let ?k = "length (pose_views pose)"
  let ?w1 = "update_resolution f w"
  let ?w2 = "resize_views ?k ?w1"
  have k: "frame_views f = ?k" using p by (simp add: frame_views_def)
  from write_views_props [OF wv]
  have wl: "?k \<le> length (views (mgr ?w2))" "length vs = length (views (mgr ?w2))"
       "map vid vs = map vid (views (mgr ?w2))"
    by simp_all
  show ?thesis
  proof (cases "length (views (mgr w)) < ?k")
    case True
    then have "length (views (mgr ?w1)) < ?k" by simp
    from resize_views_grow [OF this] wl True
    show ?thesis
      unfolding k held_views_def v pl n
      by (auto simp: max_def)
  next
    case False
    then have "?k \<le> length (views (mgr ?w1))" by simp
    from resize_views_shrink [OF this] wl False
    have a: "nextView ?w2 = nextView w"
      and b: "views (mgr ?w2) @ rev (viewsPool (mgr ?w2)) = views (mgr w) @ rev (viewsPool (mgr w))"
      by simp_all
    from b have "length (views (mgr ?w2) @ rev (viewsPool (mgr ?w2)))
                  = length (views (mgr w) @ rev (viewsPool (mgr w)))" by simp
    then have c: "length (views (mgr ?w2)) + length (viewsPool (mgr ?w2))
                  = length (views (mgr w)) + length (viewsPool (mgr w))" by simp
    from b have "mset (map vid (views (mgr ?w2) @ rev (viewsPool (mgr ?w2))))
                  = mset (map vid (views (mgr w) @ rev (viewsPool (mgr w))))" by simp
    then have d: "mset (map vid (views (mgr ?w2))) + mset (map vid (viewsPool (mgr ?w2)))
                  = mset (map vid (views (mgr w))) + mset (map vid (viewsPool (mgr w)))"
      by (simp add: rev_map [symmetric])
    have e: "mset (map vid vs) = mset (map vid (views (mgr ?w2)))" using wl by simp
    from a c d e wl False
    show ?thesis
      unfolding k held_views_def v pl n
      by (auto simp: max_def)
  qed
qed

lemma update_frames_pool:
  "update_frames fs w = Some w' \<Longrightarrow>
     nextView w \<le> nextView w'
     \<and> length (held_views w') = max (length (held_views w)) (max_views fs)
     \<and> nextView w' - nextView w = length (held_views w') - length (held_views w)
     \<and> mset (map vid (held_views w')) = mset (map vid (held_views w)) + mset [nextView w..<nextView w']"
proof (induction fs arbitrary: w)
  case Nil
  then show ?case by (simp add: max_views_def)
next
  case (Cons f fs)
  from Cons.prems obtain w1 where
    u: "update f w = (w1, Returned True)" and r: "update_frames fs w1 = Some w'"
    by (auto split: prod.splits outcome.splits bool.splits)
  note a = update_true_pool [OF u]
  note b = Cons.IH [OF r]
  have m: "max_views (f # fs) = max (frame_views f) (max_views fs)"
    by (simp add: max_views_def)
  have n: "mset [nextView w..<nextView w1] + mset [nextView w1..<nextView w']
           = mset [nextView w..<nextView w']"
    using a b by (metis mset_append upt_add_eq_append le_Suc_ex)
  from a b n show ?case
    unfolding m by (auto simp: max_def ac_simps)
qed

subsection \<open>Session start and teardown\<close>

lemma onEnd_resets:
  "xr_session (mgr (onEnd s w)) = None" "xr_referenceSpace (mgr (onEnd s w)) = None"
  "views (mgr (onEnd s w)) = []" "xr_width (mgr (onEnd s w)) = 0"
  "xr_height (mgr (onEnd s w)) = 0" "xr_type (mgr (onEnd s w)) = None"
  "xr_spaceType (mgr (onEnd s w)) = None" "xr_camera (mgr (onEnd s w)) = None"
  "viewsPool (mgr (onEnd s w)) = viewsPool (mgr w)"
  by (simp_all add: onEnd_def Let_def tick_def fire_def emit_def split: option.splits)

lemma onEnd_session_listeners:
  "\<not> end_listener (sessions (onEnd s w) s)" "\<not> visibilitychange_listener (sessions (onEnd s w) s)"
  by (simp_all add: onEnd_def Let_def tick_def fire_def emit_def split: option.splits)

lemma onEnd_camera:
  assumes "xr_camera (mgr w) = Some c"
  shows "\<not> xr (cameras (onEnd s w) c)" "s \<notin> set (set_nearClip (cameras (onEnd s w) c))"
    "s \<notin> set (set_farClip (cameras (onEnd s w) c))"
  using assms by (simp_all add: onEnd_def Let_def tick_def fire_def emit_def)

lemma onEnd_effects:
  "effects (onEnd s w) =
     effects w
     @ (if failed (sessions w s) then []
        else Fire EvEnd # map (\<lambda>f. CallbackCall f None) (end_once (mgr w)))
     @ [AppTick]"
  by (simp add: onEnd_def Let_def tick_def fire_def emit_def split: option.splits)

lemma onSessionStart_bound:
  assumes "xr_camera (mgr w) = Some c"
  shows "snd (onSessionStart s sp w) = None"
    "xr_session (mgr (fst (onSessionStart s sp w))) = Some s"
    "xr_camera (mgr (fst (onSessionStart s sp w))) = Some c"
    "end_listener (sessions (fst (onSessionStart s sp w)) s)"
    "visibilitychange_listener (sessions (fst (onSessionStart s sp w)) s)"
    "\<not> failed (sessions (fst (onSessionStart s sp w)) s)"
    "set_nearClip (cameras (fst (onSessionStart s sp w)) c) = set_nearClip (cameras w c) @ [s]"
    "set_farClip (cameras (fst (onSessionStart s sp w)) c) = set_farClip (cameras w c) @ [s]"
    "effects (fst (onSessionStart s sp w)) = effects w
       @ [UpdateRenderState s \<lparr>rs_baseLayer = Some (XRWebGLLayer s True True True),
            rs_depthNear = Some (xr_depthNear (mgr w)), rs_depthFar = Some (xr_depthFar (mgr w))\<rparr>,
          RequestReferenceSpace s sp]"
  using assms by (simp_all add: onSessionStart_def Let_def emit_def)

lemma requestSession_then_bound:
  assumes "xr_camera (mgr w) = Some c"
  shows "requestSession_then s sp cb w = fst (onSessionStart s sp w)"
  using onSessionStart_bound(1) [OF assms, of s sp]
  by (cases "onSessionStart s sp w") (simp add: requestSession_then_def)

lemma requestReferenceSpace_catch_frame:
  "mgr (requestReferenceSpace_catch s cb ex w) = mgr w"
  "cameras (requestReferenceSpace_catch s cb ex w) = cameras w"
  "failed (sessions (requestReferenceSpace_catch s cb ex w) s)"
  "end_listener (sessions (requestReferenceSpace_catch s cb ex w) s) = end_listener (sessions w s)"
  "effects (requestReferenceSpace_catch s cb ex w) = effects w @ [SessionEnd s]
     @ (case cb of None \<Rightarrow> [] | Some f \<Rightarrow> [CallbackCall f (Some ex)]) @ [Fire (EvError ex)]"
  by (simp_all add: requestReferenceSpace_catch_def Let_def fire_def call_def emit_def
        split: option.splits)

lemma clip_listener_once:
  assumes "xr_session (mgr w) = Some s" and "xr_camera (mgr w) = Some c"
  shows "run_clip_listeners [l] w =
     (if xr_depthNear (mgr w) = nearClip (cameras w c) \<and> xr_depthFar (mgr w) = farClip (cameras w c)
      then w
      else emit (UpdateRenderState s
                  \<lparr>rs_baseLayer = None, rs_depthNear = Some (nearClip (cameras w c)),
                   rs_depthFar = Some (farClip (cameras w c))\<rparr>)
             (w\<lparr>mgr := (mgr w)\<lparr>xr_depthNear := nearClip (cameras w c),
                                 xr_depthFar := farClip (cameras w c)\<rparr>\<rparr>))"
  using assms by (simp add: onClipPlanesChange_def setClipPlanes_def Let_def)

section \<open>The claims\<close>

text \<open>
  C1. The claim: a \<open>start\<close> made while a session is active, or while an earlier start is
  still negotiating, fails at once with "XR session is already started" and changes nothing.
  The code tests \<open>this._session\<close> only, which is set when the host grants the session.
  What holds: with a session active, \<open>start\<close> invokes the callback with an error and
  changes nothing else, sends no request; the error is "XR session is already started" when
  \<open>this._available[type]\<close> reads truthy (for a session type: when it is available), and
  "XR is not available" (the earlier check) otherwise.
\<close>

theorem start_while_active:
  assumes "xr_session (mgr w) \<noteq> None"
  shows "start c t sp options w =
           call (options_callback options)
             (Some (Error (if available_truthy (available_get (mgr w) t)
                           then ''XR session is already started'' else ''XR is not available''))) w"
  using assms by (simp add: start_def Let_def)

theorem start_while_active_witness:
  "xr_session (mgr example_active) \<noteq> None
   \<and> xr_available (mgr example_active) XRTYPE_VR = Some True
   \<and> effects (start 1 XRTYPE_VR ''viewer'' (OptFunction 2) example_active)
       = effects example_active @ [CallbackCall 2 (Some (Error ''XR session is already started''))]
   \<and> mgr (start 1 XRTYPE_VR ''viewer'' (OptFunction 2) example_active) = mgr example_active
   \<and> effects (start 1 XRTYPE_AR ''viewer'' (OptFunction 2) example_active)
       = effects example_active @ [CallbackCall 2 (Some (Error ''XR is not available''))]
   \<and> effects (start 1 ''constructor'' ''viewer'' (OptFunction 2) example_active)
       = effects example_active @ [CallbackCall 2 (Some (Error ''XR session is already started''))]"
proof -
  have a: "xr_available (mgr example_active) XRTYPE_AR = Some False"
    "xr_available (mgr example_active) ''constructor'' = None"
    by (simp_all add: ex_defs xr_defs)
  from start_while_active [of example_active 1 XRTYPE_VR "''viewer''" "OptFunction 2"]
       start_while_active [of example_active 1 XRTYPE_AR "''viewer''" "OptFunction 2"]
       start_while_active [of example_active 1 "''constructor''" "''viewer''" "OptFunction 2"]
  show ?thesis
    by (simp add: a example_active_fields available_get_def Object_prototype_keys_def
          options_callback_def call_def emit_def)
qed

text \<open>
  The counterexample to C1 as stated: while the first request is with the host (no session
  yet), a second \<open>start\<close> with another camera and space type is not refused. It sends a
  second request and rebinds the manager to the second camera and space type.
\<close>

theorem start_in_flight_counterexample:
  "xr_session (mgr example_negotiating) = None
   \<and> last (effects example_negotiating)
       = RequestSession XRTYPE_VR
           \<lparr>requiredFeatures = [''local-floor''], optionalFeatures = [''hand-tracking''],
            domOverlay = None, depthSensing = None, trackedImages = None\<rparr>
   \<and> effects (start 1 XRTYPE_VR ''viewer'' (OptFunction 2) example_negotiating)
       = effects example_negotiating
         @ [RequestSession XRTYPE_VR
              \<lparr>requiredFeatures = [''viewer''], optionalFeatures = [''hand-tracking''],
               domOverlay = None, depthSensing = None, trackedImages = None\<rparr>]
   \<and> xr_camera (mgr example_negotiating) = Some 0
   \<and> xr_camera (mgr (start 1 XRTYPE_VR ''viewer'' (OptFunction 2) example_negotiating)) = Some 1
   \<and> xr_spaceType (mgr example_negotiating) = Some ''local-floor''
   \<and> xr_spaceType (mgr (start 1 XRTYPE_VR ''viewer'' (OptFunction 2) example_negotiating))
       = Some ''viewer''
   \<and> xr (cameras (start 1 XRTYPE_VR ''viewer'' (OptFunction 2) example_negotiating) 1)"
  by (simp add: ex_defs xr_defs)

text \<open>
  C2. The claim: after every failure of \<open>start\<close> the back-reference \<open>camera.camera.xr\<close>
  is absent, and a failed image preparation never sends the session request. The code at
  the failing input: a start that waits for its images has installed the back-reference;
  when \<open>prepareImages\<close> reports an error, the callback and the error notification happen,
  no request is sent, and the back-reference and the bound camera stay. The rejection
  handler of the session request, next to it, does clear the back-reference.
\<close>

theorem prepareImages_failure_keeps_back_reference:
  "last (effects example_preparing) = PrepareImages
   \<and> xr (cameras example_preparing 0)
   \<and> xr (cameras (step (ImagesPrepared XRTYPE_VR
          (session_options (subs example_preparing) XRTYPE_VR ''local-floor'' (OptFunction 1))
          (Some 1) (Some (Error ''images'')) None) example_preparing) 0)
   \<and> xr_camera (mgr (step (ImagesPrepared XRTYPE_VR
          (session_options (subs example_preparing) XRTYPE_VR ''local-floor'' (OptFunction 1))
          (Some 1) (Some (Error ''images'')) None) example_preparing)) = Some 0
   \<and> effects (step (ImagesPrepared XRTYPE_VR
          (session_options (subs example_preparing) XRTYPE_VR ''local-floor'' (OptFunction 1))
          (Some 1) (Some (Error ''images'')) None) example_preparing)
       = effects example_preparing
         @ [CallbackCall 1 (Some (Error ''images'')), Fire (EvError (Error ''images''))]
   \<and> \<not> xr (cameras (step (SessionRejected (Some 1) (Error ''host'')) example_negotiating) 0)"
  by (simp add: example_preparing_def example_world_images_def ex_defs xr_defs)

text \<open>
  C3. The claim: the resize step of \<open>update\<close> leaves the active list exactly as long as
  the pose has views, for every old and new length. Both loops read their bound again
  after each push or pop, so growing by \<open>d\<close> adds \<open>d div 2 + 1\<close> entries and shrinking by
  \<open>d\<close> removes \<open>(d + 1) div 2\<close>. The code at the failing input: from an empty list a
  pose of three views gives two entries, and \<open>update\<close> then raises on the missing third;
  shrinking from two entries to none leaves one. Growing by one or two views does reach
  the count.
\<close>

theorem resize_views_misses_count:
  "length (views (mgr (resize_views N w))) =
     (if length (views (mgr w)) < N
      then length (views (mgr w)) + (N - length (views (mgr w))) div 2 + 1
      else length (views (mgr w)) - (length (views (mgr w)) - N + 1) div 2)
   \<and> length (views (mgr example_active)) = 0
   \<and> length (views (mgr (resize_views 3 example_active))) = 2
   \<and> snd (update (frame_with_views 800 600 3) example_active) = Threw TypeError
   \<and> length (views (mgr (resize_views 2 example_active))) = 2
   \<and> length (views (mgr (resize_views 0 (resize_views 2 example_active)))) = 1"
proof -
  have b: "length (views (mgr (resize_views 3 example_active))) = 2"
    by (simp add: resize_views_length example_active_fields)
  have c: "length (views (mgr (resize_views 2 example_active))) = 2"
    by (simp add: resize_views_length example_active_fields)
  have d: "length (views (mgr (resize_views 0 (resize_views 2 example_active)))) = 1"
    by (simp add: resize_views_length example_active_fields)
  have e: "snd (update (frame_with_views 800 600 3) example_active) = Threw TypeError"
    by (simp add: frame_with_views_def ex_defs xr_defs upd_defs eval_nat_numeral)
  show ?thesis
    using b c d e by (simp add: resize_views_length example_active_fields)
qed

text \<open>
  C4. From the start of a session (the active list is empty), over any run of frames whose
  \<open>update\<close> calls all return \<open>true\<close>, the number of view records allocated is the
  largest view count of the run less the size of the pool at the start, or zero when the
  pool was that large. No record is lost on the way: the records held at the end, active
  and pooled, are those of the pool at the start and the new ones. Shrinking moves the
  records it pops onto the pool, in the order it pops them, and the teardown of a session
  leaves the pool as it is.
\<close>

theorem view_pool_allocation:
  assumes "views (mgr w) = []" and "update_frames fs w = Some w'"
  shows "int (nextView w' - nextView w)
           = max 0 (int (max_views fs) - int (length (viewsPool (mgr w))))
     \<and> mset (map vid (held_views w'))
           = mset (map vid (viewsPool (mgr w))) + mset [nextView w..<nextView w']
     \<and> (N \<le> length (views (mgr u)) \<longrightarrow>
           views (mgr (resize_views N u)) @ rev (viewsPool (mgr (resize_views N u)))
             = views (mgr u) @ rev (viewsPool (mgr u)))
     \<and> viewsPool (mgr (onEnd s u)) = viewsPool (mgr u)"
proof -
  have h: "held_views w = viewsPool (mgr w)"
    using assms(1) by (simp add: held_views_def)
  from update_frames_pool [OF assms(2)]
  have a: "int (nextView w' - nextView w)
           = max 0 (int (max_views fs) - int (length (viewsPool (mgr w))))"
    unfolding h by (auto simp: max_def)
  from update_frames_pool [OF assms(2)]
  have b: "mset (map vid (held_views w'))
           = mset (map vid (viewsPool (mgr w))) + mset [nextView w..<nextView w']"
    unfolding h by simp
  have c: "N \<le> length (views (mgr u)) \<longrightarrow>
           views (mgr (resize_views N u)) @ rev (viewsPool (mgr (resize_views N u)))
             = views (mgr u) @ rev (viewsPool (mgr u))"
    using resize_views_shrink [of N u] by simp
  have d: "viewsPool (mgr (onEnd s u)) = viewsPool (mgr u)"
    by (simp add: onEnd_def Let_def tick_def fire_def emit_def split: option.splits)
  from a b c d show ?thesis by simp
qed

theorem view_pool_allocation_witness:
  "views (mgr example_active) = []
   \<and> update_frames (map (frame_with_views 800 600) [2, 3, 1, 3]) example_active \<noteq> None
   \<and> max_views (map (frame_with_views 800 600) [2, 3, 1, 3]) = 3
   \<and> nextView (the (update_frames (map (frame_with_views 800 600) [2, 3, 1, 3]) example_active)) = 3"
proof -
  obtain w' where
    r: "update_frames (map (frame_with_views 800 600) [2, 3, 1, 3]) example_active = Some w'"
    by (simp add: frame_with_views_def ex_defs upd_defs xr_defs eval_nat_numeral)
  have m: "max_views (map (frame_with_views 800 600) [2, 3, 1, 3]) = 3"
    by (simp add: max_views_def frame_views_def frame_with_views_def)
  from view_pool_allocation [OF example_active_fields(1) r] m
  have n: "nextView w' = 3"
    by (simp add: example_active_fields)
  show ?thesis
    unfolding r using example_active_fields(1) m n
    by (simp del: update_frames.simps list.map)
qed

text \<open>
  C5. A start of an AR session that asks for depth sensing, with depth sensing supported,
  sends a session request whose options carry a depth-sensing preference object: each of
  the two lists is the default list with the caller's preferred value, if any, removed from
  its place and put in front. With the usage preference \<open>gpu-optimized\<close> the usage list
  is \<open>gpu-optimized\<close>, \<open>cpu-optimized\<close>. The request goes out at once, or after the images
  are prepared when image tracking needs them, with the same preference object.
\<close>

theorem start_depth_sensing_preferences:
  assumes "xr_available (mgr w) XRTYPE_AR = Some True"
      and "xr_session (mgr w) = None"
      and "o_depthSensing ob = Some ds"
      and "depthSensing_supported (subs w)"
  shows "depthSensing (session_options (subs w) XRTYPE_AR sp (OptObject ob))
           = Some \<lparr>usagePreference =
                     (case o_usagePreference ds of
                        None \<Rightarrow> [XRDEPTHSENSINGUSAGE_CPU]
                      | Some v \<Rightarrow> if v = [] then [XRDEPTHSENSINGUSAGE_CPU]
                                  else v # remove1 v [XRDEPTHSENSINGUSAGE_CPU]),
                   dataFormatPreference =
                     (case o_dataFormatPreference ds of
                        None \<Rightarrow> [XRDEPTHSENSINGFORMAT_L8A8]
                      | Some v \<Rightarrow> if v = [] then [XRDEPTHSENSINGFORMAT_L8A8]
                                  else v # remove1 v [XRDEPTHSENSINGFORMAT_L8A8])\<rparr>
     \<and> ''depth-sensing'' \<in> set (optionalFeatures (session_options (subs w) XRTYPE_AR sp (OptObject ob)))
     \<and> (o_usagePreference ds = Some ''gpu-optimized'' \<longrightarrow>
          usagePreference (the (depthSensing (session_options (subs w) XRTYPE_AR sp (OptObject ob))))
            = [''gpu-optimized'', ''cpu-optimized''])
     \<and> (\<not> (imageTracking_supported (subs w) \<and> imageTracking_images (subs w) \<noteq> 0) \<longrightarrow>
          effects (start c XRTYPE_AR sp (OptObject ob) w)
            = effects w @ [RequestSession XRTYPE_AR (session_options (subs w) XRTYPE_AR sp (OptObject ob))])
     \<and> (imageTracking_supported (subs w) \<and> imageTracking_images (subs w) \<noteq> 0 \<longrightarrow>
          effects (start c XRTYPE_AR sp (OptObject ob) w) = effects w @ [PrepareImages]
          \<and> (\<forall>w1 tracked. \<exists>opts.
                effects (prepareImages_callback XRTYPE_AR
                   (session_options (subs w) XRTYPE_AR sp (OptObject ob)) (o_callback ob) None tracked w1)
                  = effects w1 @ [RequestSession XRTYPE_AR opts]
                \<and> depthSensing opts
                    = depthSensing (session_options (subs w) XRTYPE_AR sp (OptObject ob))))"
proof -
  let ?opts = "session_options (subs w) XRTYPE_AR sp (OptObject ob)"
  have a: "depthSensing ?opts
           = Some \<lparr>usagePreference = preference_list [XRDEPTHSENSINGUSAGE_CPU] (o_usagePreference ds),
                   dataFormatPreference = preference_list [XRDEPTHSENSINGFORMAT_L8A8] (o_dataFormatPreference ds)\<rparr>"
    using assms(3,4)
    by (simp add: session_options_def options_object_def Let_def split: option.splits)
  have b: "''depth-sensing'' \<in> set (optionalFeatures ?opts)"
    using assms(3,4)
    by (simp add: session_options_def options_object_def Let_def split: option.splits)
  have c: "effects (setClipPlanes n f w') = effects w'" if "xr_session (mgr w') = None" for n f w'
    using that by (simp add: setClipPlanes_def Let_def)
  have d: "\<not> (imageTracking_supported (subs w) \<and> imageTracking_images (subs w) \<noteq> 0) \<Longrightarrow>
          effects (start c XRTYPE_AR sp (OptObject ob) w) = effects w @ [RequestSession XRTYPE_AR ?opts]"
    using assms(1,2)
    by (simp add: start_def available_get_def Let_def onStartOptionsReady_def setClipPlanes_def)
  have e: "imageTracking_supported (subs w) \<and> imageTracking_images (subs w) \<noteq> 0 \<Longrightarrow>
          effects (start c XRTYPE_AR sp (OptObject ob) w) = effects w @ [PrepareImages]"
    using assms(1,2)
    by (simp add: start_def available_get_def Let_def onStartOptionsReady_def setClipPlanes_def)
  have f: "\<exists>opts. effects (prepareImages_callback XRTYPE_AR ?opts (o_callback ob) None tracked w1)
                  = effects w1 @ [RequestSession XRTYPE_AR opts]
                \<and> depthSensing opts = depthSensing ?opts" for w1 tracked
    by (cases tracked) (simp_all add: prepareImages_callback_def onStartOptionsReady_def)
  show ?thesis
    using a b d e f
    by (auto simp: preference_list_def XRDEPTHSENSINGUSAGE_CPU_def split: option.splits)
qed

theorem start_depth_sensing_preferences_witness:
  "xr_available (mgr (step (SupportCheckResolved XRTYPE_AR True) example_world)) XRTYPE_AR = Some True
   \<and> xr_session (mgr (step (SupportCheckResolved XRTYPE_AR True) example_world)) = None
   \<and> depthSensing_supported (subs (step (SupportCheckResolved XRTYPE_AR True) example_world))
   \<and> effects (start 0 XRTYPE_AR ''local''
        (OptObject \<lparr>o_callback = Some 1, o_optionalFeatures = None, o_imageTracking = False,
           o_planeDetection = False,
           o_depthSensing = Some \<lparr>o_usagePreference = Some ''gpu-optimized'',
                                   o_dataFormatPreference = None\<rparr>\<rparr>)
        (step (SupportCheckResolved XRTYPE_AR True) example_world))
      = effects (step (SupportCheckResolved XRTYPE_AR True) example_world)
        @ [RequestSession XRTYPE_AR
             \<lparr>requiredFeatures = [''local''],
              optionalFeatures = [''light-estimation'', ''hit-test'', ''depth-sensing''],
              domOverlay = None,
              depthSensing = Some \<lparr>usagePreference = [''gpu-optimized'', ''cpu-optimized''],
                                   dataFormatPreference = [''luminance-alpha'']\<rparr>,
              trackedImages = None\<rparr>]"
proof -
  let ?w = "step (SupportCheckResolved XRTYPE_AR True) example_world"
  let ?ds = "\<lparr>o_usagePreference = Some ''gpu-optimized'', o_dataFormatPreference = None\<rparr>"
  let ?ob = "\<lparr>o_callback = Some 1, o_optionalFeatures = None, o_imageTracking = False,
           o_planeDetection = False, o_depthSensing = Some ?ds\<rparr>"
  have h: "xr_available (mgr ?w) XRTYPE_AR = Some True" "xr_session (mgr ?w) = None"
    "o_depthSensing ?ob = Some ?ds" "depthSensing_supported (subs ?w)"
    by (simp_all add: xr_defs)
  have s: "subs ?w = example_submodules"
    by (simp add: xr_defs)
  have o: "session_options example_submodules XRTYPE_AR ''local'' (OptObject ?ob)
           = \<lparr>requiredFeatures = [''local''],
              optionalFeatures = [''light-estimation'', ''hit-test'', ''depth-sensing''],
              domOverlay = None,
              depthSensing = Some \<lparr>usagePreference = [''gpu-optimized'', ''cpu-optimized''],
                                   dataFormatPreference = [''luminance-alpha'']\<rparr>,
              trackedImages = None\<rparr>"
    by (simp add: xr_defs)
  from start_depth_sensing_preferences [OF h, of "''local''" 0]
  show ?thesis
    using h(1,2,4) unfolding s o by (simp add: example_submodules_def)
qed

text \<open>
  C6. When the reference-space request fails after \<open>_onSessionStart\<close> bound the session
  and its render state: the attempt is marked failed, the session is asked to end, the
  callback gets the error and an error notification is fired. The session's \<open>end\<close> event
  then runs the teardown, which fires no \<open>end\<close> notification, clears the cross-references
  between camera and manager, removes the listeners of the session and of the clip planes,
  and resets the state of the session.
\<close>

theorem reference_space_failure_teardown:
  assumes "xr_camera (mgr w) = Some c"
  shows "let w1 = fst (onSessionStart s sp w);
             w2 = requestReferenceSpace_catch s cb ex w1;
             w3 = session_dispatch_end s w2
         in failed (sessions w2 s)
          \<and> effects w2 = effects w1 @ [SessionEnd s]
               @ (case cb of None \<Rightarrow> [] | Some f \<Rightarrow> [CallbackCall f (Some ex)])
               @ [Fire (EvError ex)]
          \<and> w3 = onEnd s w2
          \<and> effects w3 = effects w2 @ [AppTick]
          \<and> xr_camera (mgr w3) = None \<and> \<not> xr (cameras w3 c)
          \<and> s \<notin> set (set_nearClip (cameras w3 c)) \<and> s \<notin> set (set_farClip (cameras w3 c))
          \<and> \<not> end_listener (sessions w3 s) \<and> \<not> visibilitychange_listener (sessions w3 s)
          \<and> xr_session (mgr w3) = None \<and> xr_referenceSpace (mgr w3) = None
          \<and> views (mgr w3) = [] \<and> xr_width (mgr w3) = 0 \<and> xr_height (mgr w3) = 0
          \<and> xr_type (mgr w3) = None \<and> xr_spaceType (mgr w3) = None"
proof -
  let ?w1 = "fst (onSessionStart s sp w)"
  let ?w2 = "requestReferenceSpace_catch s cb ex ?w1"
  have l: "end_listener (sessions ?w2 s)"
    by (simp add: requestReferenceSpace_catch_frame onSessionStart_bound [OF assms])
  then have d: "session_dispatch_end s ?w2 = onEnd s ?w2"
    by (simp add: session_dispatch_end_def)
  have c: "xr_camera (mgr ?w2) = Some c"
    by (simp add: requestReferenceSpace_catch_frame onSessionStart_bound [OF assms])
  have f: "failed (sessions ?w2 s)"
    by (simp add: requestReferenceSpace_catch_frame)
  show ?thesis
    unfolding Let_def d
    using f onEnd_camera [OF c, of s]
    by (simp add: requestReferenceSpace_catch_frame(5) onEnd_resets onEnd_session_listeners
          onEnd_effects)
qed

theorem reference_space_failure_teardown_witness:
  "xr_camera (mgr example_negotiating) = Some 0
   \<and> effects (run [SessionResolved 5 ''local-floor'' (Some 1),
          ReferenceSpaceRejected 5 (Some 1) (Error ''no space''), SessionEndEvent 5]
        example_negotiating)
       = effects example_bound
         @ [SessionEnd 5, CallbackCall 1 (Some (Error ''no space'')),
            Fire (EvError (Error ''no space'')), AppTick]
   \<and> xr_session (mgr (run [SessionResolved 5 ''local-floor'' (Some 1),
          ReferenceSpaceRejected 5 (Some 1) (Error ''no space''), SessionEndEvent 5]
        example_negotiating)) = None
   \<and> xr (cameras example_bound 0)
   \<and> \<not> xr (cameras (run [SessionResolved 5 ''local-floor'' (Some 1),
          ReferenceSpaceRejected 5 (Some 1) (Error ''no space''), SessionEndEvent 5]
        example_negotiating) 0)"
proof -
  have c: "xr_camera (mgr example_negotiating) = Some 0"
    by (simp add: example_negotiating_def xr_defs)
  have x: "xr (cameras example_bound 0)"
    by (simp add: example_bound_def example_negotiating_def xr_defs)
  have r: "run [SessionResolved 5 ''local-floor'' (Some 1),
          ReferenceSpaceRejected 5 (Some 1) (Error ''no space''), SessionEndEvent 5]
        example_negotiating
       = session_dispatch_end 5 (requestReferenceSpace_catch 5 (Some 1) (Error ''no space'')
           (fst (onSessionStart 5 ''local-floor'' example_negotiating)))"
    by (simp add: requestSession_then_bound [OF c])
  have b: "example_bound = fst (onSessionStart 5 ''local-floor'' example_negotiating)"
    by (simp add: example_bound_def requestSession_then_bound [OF c])
  from reference_space_failure_teardown [OF c, of 5 "''local-floor''" "Some 1" "Error ''no space''"]
  show ?thesis
    unfolding r b Let_def using c x [unfolded b] by auto
qed

text \<open>
  C7. The claim: every change of the camera's near or far clip plane during a session
  pushes exactly one render-state update with the two depth values. The manager registers
  \<open>onClipPlanesChange\<close> for \<open>set_nearClip\<close> and \<open>set_farClip\<close>, and that listener,
  when it runs, pushes one such update; but the setters of the clip planes store the value
  and fire nothing. The code at the failing input: with a session active and the listeners
  on the camera, setting the near plane to 2 and the far plane to 500 pushes nothing and
  leaves the manager's depth values at 0.1 and 1000.
\<close>

theorem clip_plane_setters_push_no_update:
  "xr_session (mgr example_active) = Some 5
   \<and> xr_camera (mgr example_active) = Some 0
   \<and> set_nearClip (cameras example_active 0) = [5]
   \<and> set_farClip (cameras example_active 0) = [5]
   \<and> effects (run [SetNearClip 0 2, SetFarClip 0 500] example_active) = effects example_active
   \<and> nearClip (cameras (run [SetNearClip 0 2, SetFarClip 0 500] example_active) 0) = 2
   \<and> farClip (cameras (run [SetNearClip 0 2, SetFarClip 0 500] example_active) 0) = 500
   \<and> xr_depthNear (mgr (run [SetNearClip 0 2, SetFarClip 0 500] example_active)) = 0.1
   \<and> xr_depthFar (mgr (run [SetNearClip 0 2, SetFarClip 0 500] example_active)) = 1000
   \<and> effects (camera_fire 0 ''set_nearClip''
         (run [SetNearClip 0 2, SetFarClip 0 500] example_active))
       = effects example_active
         @ [UpdateRenderState 5
              \<lparr>rs_baseLayer = None, rs_depthNear = Some 2, rs_depthFar = Some 500\<rparr>]"
  by (simp add: example_active_fields set_nearClip_value_def set_farClip_value_def
        camera_fire_def onClipPlanesChange_def setClipPlanes_def Let_def)

text \<open>
  C8. The claim: however often \<open>requestSceneDepthMap(false)\<close> is called, the counter
  \<open>_renderSceneDepthMap\<close> stays at or above zero. The code adds \<open>-1\<close> without a guard:
  on a new camera component one call with \<open>false\<close> leaves the counter at \<open>-1\<close>, and the
  assertion that follows only reports it.
\<close>

theorem requestSceneDepthMap_below_zero:
  "renderSceneDepthMap (fst (requestSceneDepthMap L sl (new_camera near far ls) False)) = -1
   \<and> AssertFailed \<in> set (snd (requestSceneDepthMap L sl (new_camera near far ls) False))
   \<and> renderSceneDepthMap (requestSceneDepthMap_calls L sl (new_camera near far ls) [True, False, False]) < 0"
  by (simp add: requestSceneDepthMap_def new_camera_def Let_def split: prod.splits)

text \<open>
  C9. Until a support check completes with an answer, \<open>isAvailable\<close> is \<open>false\<close> for the
  inline, VR and AR session types, whatever else has happened to the manager since its
  construction, and a \<open>start\<close> for any of these types fails at once with "XR is not
  available", leaving everything but the callback's invocation as it was. The same holds for
  every other type string that does not name a member of \<open>Object.prototype\<close>.
\<close>

theorem not_available_before_support_check:
  assumes "list_all (\<lambda>i. \<not> is_support_check_result i) ins"
      and "t \<in> {XRTYPE_INLINE, XRTYPE_VR, XRTYPE_AR} \<or> t \<notin> set Object_prototype_keys"
  shows "isAvailable (run ins (XrManager_new supported sm cs ss)) XRTYPE_INLINE = AvBool False
     \<and> isAvailable (run ins (XrManager_new supported sm cs ss)) XRTYPE_VR = AvBool False
     \<and> isAvailable (run ins (XrManager_new supported sm cs ss)) XRTYPE_AR = AvBool False
     \<and> start c t sp options (run ins (XrManager_new supported sm cs ss))
         = call (options_callback options) (Some (Error ''XR is not available''))
             (run ins (XrManager_new supported sm cs ss))"
proof -
  let ?w = "run ins (XrManager_new supported sm cs ss)"
  have av: "xr_available (mgr ?w) =
      [XRTYPE_INLINE \<mapsto> False, XRTYPE_VR \<mapsto> False, XRTYPE_AR \<mapsto> False]"
    using assms(1) by (simp add: available_run available_new)
  have ne: "\<not> available_truthy (available_get (mgr ?w) t)"
    using assms(2)
    by (auto simp: av available_get_def XRTYPE_INLINE_def XRTYPE_VR_def XRTYPE_AR_def)
  have ia: "available_get (mgr ?w) XRTYPE_INLINE = AvBool False"
    "available_get (mgr ?w) XRTYPE_VR = AvBool False"
    "available_get (mgr ?w) XRTYPE_AR = AvBool False"
    by (simp_all add: av available_get_def XRTYPE_INLINE_def XRTYPE_VR_def XRTYPE_AR_def)
  show ?thesis
    using ne by (simp add: isAvailable_def ia start_def Let_def)
qed

theorem not_available_before_support_check_witness:
  "list_all (\<lambda>i. \<not> is_support_check_result i)
     [DeviceChange, Start 0 XRTYPE_VR ''local'' (OptFunction 1), SupportCheckRejected (Error ''x'')]
   \<and> XRTYPE_AR \<in> {XRTYPE_INLINE, XRTYPE_VR, XRTYPE_AR}
   \<and> isAvailable (run [DeviceChange, Start 0 XRTYPE_VR ''local'' (OptFunction 1),
         SupportCheckRejected (Error ''x'')] example_world) XRTYPE_AR = AvBool False
   \<and> effects (start 0 XRTYPE_AR ''local-floor'' (OptFunction 2)
        (run [DeviceChange, Start 0 XRTYPE_VR ''local'' (OptFunction 1),
           SupportCheckRejected (Error ''x'')] example_world))
      = effects (run [DeviceChange, Start 0 XRTYPE_VR ''local'' (OptFunction 1),
           SupportCheckRejected (Error ''x'')] example_world)
        @ [CallbackCall 2 (Some (Error ''XR is not available''))]"
  using not_available_before_support_check
    [of "[DeviceChange, Start 0 XRTYPE_VR ''local'' (OptFunction 1), SupportCheckRejected (Error ''x'')]"
        XRTYPE_AR True example_submodules "\<lambda>c. new_camera 0.1 1000 []" "\<lambda>s. example_session"
        0 "''local-floor''" "OptFunction 2"]
  by (simp add: example_world_def options_callback_def call_def)

text \<open>
  C10. With no session, the accessor \<open>visibilityState\<close> returns \<open>null\<close>, not a visibility
  string: so it does on a new manager and after the teardown of a session. With a session
  it returns that session's own \<open>visibilityState\<close>.
\<close>

theorem visibilityState_accessor:
  "(\<not> active w \<longrightarrow> get_visibilityState w = None)
   \<and> (\<forall>s. xr_session (mgr w) = Some s \<longrightarrow>
          get_visibilityState w = Some (visibilityState (sessions w s)))
   \<and> get_visibilityState (XrManager_new supported sm cs ss) = None
   \<and> get_visibilityState (onEnd s' w) = None"
  by (simp add: get_visibilityState_def active_def onEnd_def tick_def Let_def XrManager_new_def
        XrManager_fields_def deviceAvailabilityCheck_def sessionSupportCheck_def)

theorem visibilityState_accessor_witness:
  "xr_session (mgr (run [SupportCheckResolved XRTYPE_VR True,
       Start 0 XRTYPE_VR ''local'' (OptFunction 1), SessionResolved 5 ''local'' (Some 1),
       SessionVisibilityChange 5 ''hidden''] example_world)) = Some 5
   \<and> get_visibilityState (run [SupportCheckResolved XRTYPE_VR True,
       Start 0 XRTYPE_VR ''local'' (OptFunction 1), SessionResolved 5 ''local'' (Some 1),
       SessionVisibilityChange 5 ''hidden''] example_world) = Some ''hidden''
   \<and> \<not> active example_world
   \<and> get_visibilityState example_world = None"
  using visibilityState_accessor
    [of "run [SupportCheckResolved XRTYPE_VR True,
       Start 0 XRTYPE_VR ''local'' (OptFunction 1), SessionResolved 5 ''local'' (Some 1),
       SessionVisibilityChange 5 ''hidden''] example_world"]
    visibilityState_accessor [of example_world]
  by (simp add: active_def xr_defs)

end
